theory Spec2Isabelle
  imports Main
begin

section \<open>Strings and the validator functions the chains call\<close>

text \<open>
  The controllers of the catalogue (\<^verbatim>\<open>genreController.js\<close>, \<^verbatim>\<open>bookController.js\<close>
  with the author controller, \<^verbatim>\<open>bookinstanceController.js\<close>) are embedded as HOL
  functions over an explicit store. A JavaScript string is a \<^typ>\<open>string\<close>; its
  characters are read as code points below 256. A body field that a form may leave
  out is a \<^typ>\<open>string option\<close>, with \<open>None\<close> for \<^verbatim>\<open>undefined\<close>.
\<close>

definition is_space :: "char \<Rightarrow> bool" where
  \<comment> \<open>the characters of the regular expression class \<^verbatim>\<open>\s\<close> below 256\<close>
  "is_space c = (of_char c \<in> set [9, 10, 11, 12, 13, 32, 160::nat])"

definition trim :: "string \<Rightarrow> string" where
  \<comment> \<open>\<^verbatim>\<open>.trim()\<close>: white space is removed on the left, then on the right\<close>
  "trim s = rev (dropWhile is_space (rev (dropWhile is_space s)))"

definition isLength :: "nat \<Rightarrow> string \<Rightarrow> bool" where
  \<comment> \<open>\<^verbatim>\<open>.isLength({ min: n })\<close>\<close>
  "isLength n s = (n \<le> length s)"

fun escape_char :: "char \<Rightarrow> string" where
  "escape_char c =
     (if c = CHR ''&'' then ''&amp;''
      else if c = CHR 0x22 then ''&quot;''
      else if c = CHR 0x27 then ''&#x27;''
      else if c = CHR ''<'' then ''&lt;''
      else if c = CHR ''>'' then ''&gt;''
      else if c = CHR ''/'' then ''&#x2F;''
      else if c = CHR 0x5C then ''&#x5C;''
      else if c = CHR 0x60 then ''&#96;''
      else [c])"

definition escape :: "string \<Rightarrow> string" where
  \<comment> \<open>\<^verbatim>\<open>.escape()\<close>: the eight markup characters become character references\<close>
  "escape s = concat (map escape_char s)"

definition is_alnum :: "char \<Rightarrow> bool" where
  "is_alnum c = (let n = (of_char c :: nat) in
     (48 \<le> n \<and> n \<le> 57) \<or> (65 \<le> n \<and> n \<le> 90) \<or> (97 \<le> n \<and> n \<le> 122))"

definition isAlphanumeric :: "string \<Rightarrow> bool" where
  \<comment> \<open>\<^verbatim>\<open>.isAlphanumeric()\<close>, default locale: one or more of \<^verbatim>\<open>[0-9A-Za-z]\<close>\<close>
  "isAlphanumeric s = (s \<noteq> [] \<and> list_all is_alnum s)"

definition to_string :: "string option \<Rightarrow> string" where
  \<comment> \<open>the validators and sanitizers read a field as a string: \<^verbatim>\<open>undefined\<close> is \<^verbatim>\<open>''\<close>\<close>
  "to_string v = (case v of None \<Rightarrow> [] | Some s \<Rightarrow> s)"

text \<open>
  The two date functions of the validator library, \<^verbatim>\<open>isISO8601\<close> and \<^verbatim>\<open>toDate\<close>, are
  not code of the controllers: every handler that runs a date chain takes them as a
  parameter. A \<^verbatim>\<open>Date\<close> is its time value, an \<^typ>\<open>int\<close>.
\<close>

record date_lib =
  isISO8601 :: "string \<Rightarrow> bool"
  toDate :: "string \<Rightarrow> int option"

definition is_digit :: "char \<Rightarrow> bool" where
  "is_digit c = (let n = (of_char c :: nat) in 48 \<le> n \<and> n \<le> 57)"

definition is_ymd :: "string \<Rightarrow> bool" where
  "is_ymd s = (case s of
       [y1, y2, y3, y4, d1, m1, m2, d2, n1, n2] \<Rightarrow>
         list_all is_digit [y1, y2, y3, y4, m1, m2, n1, n2] \<and> d1 = CHR ''-'' \<and> d2 = CHR ''-''
     | _ \<Rightarrow> False)"

definition ymd_lib :: date_lib where
  \<comment> \<open>an instance for evaluating the handlers on examples: it knows the calendar form
      \<^verbatim>\<open>YYYY-MM-DD\<close> only, and the time value of a date is the number its digits spell\<close>
  "ymd_lib = \<lparr> isISO8601 = is_ymd,
       toDate = (\<lambda>s. if is_ymd s
          then Some (foldl (\<lambda>a c. 10 * a + (int (of_char c) - 48)) 0 (filter is_digit s))
          else None) \<rparr>"

section \<open>Validation chains\<close>

record verror =
  path :: string
  msg :: string

definition text_chain :: "string \<Rightarrow> string \<Rightarrow> nat \<Rightarrow> string option \<Rightarrow> string \<times> verror list" where
  \<comment> \<open>\<^verbatim>\<open>body(p, m).trim().isLength({ min: n }).escape()\<close>: the value left in the body and
      the errors of the field\<close>
  "text_chain p m n v =
     (let t = trim (to_string v)
      in (escape t, if isLength n t then [] else [\<lparr>path = p, msg = m\<rparr>]))"

definition name_chain :: "string \<Rightarrow> string \<Rightarrow> string \<Rightarrow> string option \<Rightarrow> string \<times> verror list" where
  \<comment> \<open>\<^verbatim>\<open>body(p).trim().isLength({ min: 1 }).escape().withMessage(m1).isAlphanumeric().withMessage(m2)\<close>:
      both validators run, the second on the escaped value\<close>
  "name_chain p m1 m2 v =
     (let t = trim (to_string v);
          e1 = (if isLength 1 t then [] else [\<lparr>path = p, msg = m1\<rparr>]);
          x = escape t;
          e2 = (if isAlphanumeric x then [] else [\<lparr>path = p, msg = m2\<rparr>])
      in (x, e1 @ e2))"

definition escape_chain :: "string option \<Rightarrow> string" where
  \<comment> \<open>\<^verbatim>\<open>body("status").escape()\<close>: a sanitizer only, no validator\<close>
  "escape_chain v = escape (to_string v)"

datatype date_value = DUndefined | DEmpty | DDate int | DNull

definition date_chain :: "date_lib \<Rightarrow> string \<Rightarrow> string \<Rightarrow> string option \<Rightarrow> date_value \<times> verror list" where
  \<comment> \<open>\<^verbatim>\<open>body(p, m).optional({ values: "falsy" }).isISO8601().toDate()\<close>: a falsy value
      skips the chain and stays in the body as it came\<close>
  "date_chain L p m v =
     (case v of
        None \<Rightarrow> (DUndefined, [])
      | Some s \<Rightarrow>
          if s = [] then (DEmpty, [])
          else ((case toDate L s of None \<Rightarrow> DNull | Some d \<Rightarrow> DDate d),
                if isISO8601 L s then [] else [\<lparr>path = p, msg = m\<rparr>]))"

definition cast_date :: "date_value \<Rightarrow> int option" where
  \<comment> \<open>Modelled from the spec: the schemas of the models are not among the sources; an
      optional date that is empty or did not parse is stored as absent.\<close>
  "cast_date d = (case d of DDate t \<Rightarrow> Some t | _ \<Rightarrow> None)"

section \<open>Documents, the store and the responses\<close>

text \<open>
  Modelled from the spec: the models (\<^verbatim>\<open>models/author.js\<close>, \<^verbatim>\<open>genre.js\<close>, \<^verbatim>\<open>book.js\<close>,
  \<^verbatim>\<open>bookinstance.js\<close>) and the persistence engine behind them are not among the
  sources. The spec's Entity Store is a collection per entity type, each entity with a
  unique opaque id, with find-by-id, find-with-filter, create, update and delete; its
  Reference Resolver expands a stored id into the record it names. An id is an opaque
  string (the cast of a string to an object id is not modelled), a collection is the
  list of its documents in insertion order, and a model's \<^verbatim>\<open>url\<close> is the spec's
  canonical, id-addressed detail location of the entity.
\<close>

record author_doc =
  a_id :: string
  a_first_name :: string
  a_family_name :: string
  a_date_of_birth :: "int option"
  a_date_of_death :: "int option"

record genre_doc =
  g_id :: string
  g_name :: string

record book_doc =
  b_id :: string
  b_title :: string
  b_author :: string
  b_summary :: string
  b_isbn :: string
  b_genre :: "string list"

record bookinstance_doc =
  i_id :: string
  i_book :: string
  i_imprint :: string
  i_status :: string
  i_due_back :: "int option"

record store =
  author_coll :: "author_doc list"
  genre_coll :: "genre_doc list"
  book_coll :: "book_doc list"
  bookinstance_coll :: "bookinstance_doc list"

definition empty_store :: store where
  "empty_store = \<lparr> author_coll = [], genre_coll = [], book_coll = [], bookinstance_coll = [] \<rparr>"

definition findById :: "('d \<Rightarrow> string) \<Rightarrow> string \<Rightarrow> 'd list \<Rightarrow> 'd option" where
  \<comment> \<open>\<^verbatim>\<open>Model.findById(id)\<close>: the document or \<^verbatim>\<open>null\<close>; the first argument reads \<^verbatim>\<open>_id\<close>\<close>
  "findById ident i coll = List.find (\<lambda>d. ident d = i) coll"

definition save :: "'d \<Rightarrow> 'd list \<Rightarrow> 'd list" where
  \<comment> \<open>\<^verbatim>\<open>doc.save()\<close> of a new document\<close>
  "save d coll = coll @ [d]"

definition findByIdAndDelete :: "('d \<Rightarrow> string) \<Rightarrow> string \<Rightarrow> 'd list \<Rightarrow> 'd list" where
  "findByIdAndDelete ident i coll = filter (\<lambda>d. ident d \<noteq> i) coll"

definition findByIdAndUpdate ::
    "('d \<Rightarrow> string) \<Rightarrow> string \<Rightarrow> 'd \<Rightarrow> 'd list \<Rightarrow> 'd option \<times> 'd list" where
  \<comment> \<open>\<^verbatim>\<open>Model.findByIdAndUpdate(id, doc, {})\<close>: the document as it was (or \<^verbatim>\<open>null\<close>) and
      the collection with the document of that id replaced; the empty options ask for
      no upsert\<close>
  "findByIdAndUpdate ident i d coll =
     (List.find (\<lambda>x. ident x = i) coll, map (\<lambda>x. if ident x = i then d else x) coll)"

definition to_lower :: "char \<Rightarrow> char" where
  "to_lower c =
     (case map_of (zip ''ABCDEFGHIJKLMNOPQRSTUVWXYZ'' ''abcdefghijklmnopqrstuvwxyz'') c of
        None \<Rightarrow> c | Some l \<Rightarrow> l)"

definition collation_eq :: "string \<Rightarrow> string \<Rightarrow> bool" where
  \<comment> \<open>Modelled from the spec: \<^verbatim>\<open>.collation({ locale: "en", strength: 2 })\<close> is the store's
      case-insensitive comparison.\<close>
  "collation_eq a b = (map to_lower a = map to_lower b)"

definition findOne_name :: "string \<Rightarrow> genre_doc list \<Rightarrow> genre_doc option" where
  \<comment> \<open>\<^verbatim>\<open>Genre.findOne({ name: n }).collation(...)\<close>: the first match\<close>
  "findOne_name n coll = List.find (\<lambda>g. collation_eq (g_name g) n) coll"

record book_title =
  bt_id :: string
  bt_title :: string

record book_title_summary =
  bs_id :: string
  bs_title :: string
  bs_summary :: string

definition find_titles :: "book_doc list \<Rightarrow> book_title list" where
  \<comment> \<open>\<^verbatim>\<open>Book.find({}, "title")\<close>\<close>
  "find_titles coll = map (\<lambda>b. \<lparr>bt_id = b_id b, bt_title = b_title b\<rparr>) coll"

definition find_by_author :: "string \<Rightarrow> book_doc list \<Rightarrow> book_title_summary list" where
  \<comment> \<open>\<^verbatim>\<open>Book.find({ author: id }, "title summary")\<close>\<close>
  "find_by_author i coll =
     map (\<lambda>b. \<lparr>bs_id = b_id b, bs_title = b_title b, bs_summary = b_summary b\<rparr>)
       (filter (\<lambda>b. b_author b = i) coll)"

definition find_by_genre :: "string \<Rightarrow> book_doc list \<Rightarrow> book_doc list" where
  \<comment> \<open>\<^verbatim>\<open>Book.find({ genre: id })\<close>: the books whose genre array holds the id\<close>
  "find_by_genre i coll = filter (\<lambda>b. i \<in> set (b_genre b)) coll"

definition find_by_book :: "string \<Rightarrow> bookinstance_doc list \<Rightarrow> bookinstance_doc list" where
  \<comment> \<open>\<^verbatim>\<open>BookInstance.find({ book: id })\<close>\<close>
  "find_by_book i coll = filter (\<lambda>c. i_book c = i) coll"

record populated_book =
  pb_book :: book_doc
  pb_author :: "author_doc option"
  pb_genre :: "genre_doc list"

definition populate_book :: "store \<Rightarrow> book_doc \<Rightarrow> populated_book" where
  \<comment> \<open>\<^verbatim>\<open>.populate("author").populate("genre")\<close>: the references that resolve\<close>
  "populate_book s b =
     \<lparr> pb_book = b,
       pb_author = findById a_id (b_author b) (author_coll s),
       pb_genre = concat (map (\<lambda>i.
          case findById g_id i (genre_coll s) of None \<Rightarrow> [] | Some g \<Rightarrow> [g]) (b_genre b)) \<rparr>"

datatype kind = Author | Genre | Book | BookInstance

datatype target =
    Path string \<comment> \<open>a literal path, as \<^verbatim>\<open>"/catalog/genres"\<close>\<close>
  | Url kind string \<comment> \<open>\<^verbatim>\<open>doc.url\<close>: the detail location of the entity with this id\<close>

text \<open>
  The data bag \<^verbatim>\<open>locals\<close> of each view. \<open>None\<close> stands for \<^verbatim>\<open>undefined\<close> and for
  \<^verbatim>\<open>null\<close>. The \<^verbatim>\<open>checked\<close> mark that the book handlers put on the genres they fetched
  for the form is an annotation for the view only and is not represented.
\<close>

datatype locals =
    GenreForm "genre_doc option" "verror list option"
  | GenreDelete "genre_doc option" "book_doc list"
  | AuthorForm "author_doc option" "verror list option"
  | AuthorDelete "author_doc option" "book_title_summary list"
  | BookForm "author_doc list" "genre_doc list" "book_doc option" "verror list option"
  | BookUpdateForm "author_doc list" "genre_doc list" populated_book
  | BookDelete "book_doc option" "bookinstance_doc list"
  | BookInstanceForm "book_title list" "verror list option" "string option" "bookinstance_doc option"
  | BookInstanceDelete bookinstance_doc

datatype call =
    Redirect target \<comment> \<open>\<^verbatim>\<open>res.redirect(target)\<close>\<close>
  | Render string string locals \<comment> \<open>\<^verbatim>\<open>res.render("layout", { view, title, locals })\<close>\<close>

datatype failure =
    NotFound string \<comment> \<open>\<^verbatim>\<open>next(err)\<close> with \<^verbatim>\<open>err.status = 404\<close>\<close>
  | TypeError string
  | ReferenceError string

text \<open>
  What a handler does: the store it leaves, the calls it makes on \<^verbatim>\<open>res\<close> in order, and
  the error it hands to the error layer, if any (a thrown error ends the handler:
  \<^verbatim>\<open>asyncHandler\<close> passes it to \<^verbatim>\<open>next\<close>).
\<close>

record outcome =
  out_store :: store
  out_calls :: "call list"
  out_error :: "failure option"

definition respond :: "store \<Rightarrow> call list \<Rightarrow> outcome" where
  "respond s cs = \<lparr> out_store = s, out_calls = cs, out_error = None \<rparr>"

definition fail :: "store \<Rightarrow> call list \<Rightarrow> failure \<Rightarrow> outcome" where
  "fail s cs e = \<lparr> out_store = s, out_calls = cs, out_error = Some e \<rparr>"

section \<open>The genre controller\<close>

record genre_body =
  body_name :: "string option"

definition genre_chain :: "genre_body \<Rightarrow> string \<times> verror list" where
  "genre_chain body =
     text_chain ''name'' ''Genre must contain at least 3 characters'' 3 (body_name body)"

definition genre_create_post :: "string \<Rightarrow> genre_body \<Rightarrow> store \<Rightarrow> outcome" where
  \<comment> \<open>the first argument is the \<^verbatim>\<open>_id\<close> that \<^verbatim>\<open>new Genre\<close> gives the document\<close>
  "genre_create_post new_id body s =
     (let (name, errors) = genre_chain body;
          genre = \<lparr>g_id = new_id, g_name = name\<rparr>
      in if errors \<noteq> []
         then respond s [Render ''genre_form'' ''Create genre'' (GenreForm (Some genre) (Some errors))]
         else (case findOne_name name (genre_coll s) of
                 Some genreExists \<Rightarrow> respond s [Redirect (Url Genre (g_id genreExists))]
               | None \<Rightarrow>
                   respond (s\<lparr>genre_coll := save genre (genre_coll s)\<rparr>)
                     [Redirect (Url Genre (g_id genre))]))"

definition genre_delete_get :: "string \<Rightarrow> store \<Rightarrow> outcome" where
  "genre_delete_get params_id s =
     (let genre = findById g_id params_id (genre_coll s);
          allBooksWithGenre = find_by_genre params_id (book_coll s)
      in case genre of
           None \<Rightarrow> respond s [Redirect (Path ''/catalog/genres'')]
         | Some g \<Rightarrow>
             respond s [Render ''genre_delete'' ''Delete Genre'' (GenreDelete (Some g) allBooksWithGenre)])"

definition genre_delete_post :: "string \<Rightarrow> string \<Rightarrow> store \<Rightarrow> outcome" where
  \<comment> \<open>\<^verbatim>\<open>req.body.genreid\<close>, then \<^verbatim>\<open>req.params.id\<close>\<close>
  "genre_delete_post body_id params_id s =
     (let genre = findById g_id body_id (genre_coll s);
          allBooksWithGenre = find_by_genre body_id (book_coll s)
      in case genre of
           None \<Rightarrow> respond s [Redirect (Path ''/catalog/genres'')]
         | Some g \<Rightarrow>
             if body_id \<noteq> params_id then respond s [Redirect (Path ''/catalog/genres'')]
             else if length allBooksWithGenre > 0
             then respond s [Render ''genre_delete'' ''Delete Genre'' (GenreDelete (Some g) allBooksWithGenre)]
             else respond (s\<lparr>genre_coll := findByIdAndDelete g_id body_id (genre_coll s)\<rparr>)
                    [Redirect (Path ''/catalog/genres'')])"

definition genre_update_get :: "string \<Rightarrow> store \<Rightarrow> outcome" where
  \<comment> \<open>no test of the document that was found\<close>
  "genre_update_get params_id s =
     (let genre = findById g_id params_id (genre_coll s)
      in respond s [Render ''genre_form'' ''Update genre'' (GenreForm genre None)])"

section \<open>The author controller\<close>

record author_body =
  body_first_name :: "string option"
  body_family_name :: "string option"
  body_date_of_birth :: "string option"
  body_date_of_death :: "string option"

record author_fields =
  first_name_field :: "string \<times> verror list"
  family_name_field :: "string \<times> verror list"
  date_of_birth_field :: "date_value \<times> verror list"
  date_of_death_field :: "date_value \<times> verror list"

definition author_chains :: "date_lib \<Rightarrow> author_body \<Rightarrow> author_fields" where
  \<comment> \<open>the four chains of \<^verbatim>\<open>author_create_post\<close>; \<^verbatim>\<open>author_update_post\<close> has the same four\<close>
  "author_chains L body =
     \<lparr> first_name_field = name_chain ''first_name'' ''First name must be specified.''
         ''First name has non-alphanumeric characters.'' (body_first_name body),
       family_name_field = name_chain ''family_name'' ''Family name must be specified.''
         ''Family name has non-alphanumeric characters.'' (body_family_name body),
       date_of_birth_field = date_chain L ''date_of_birth'' ''Invalid date of birth.''
         (body_date_of_birth body),
       date_of_death_field = date_chain L ''date_of_death'' ''Invalid date of death.''
         (body_date_of_death body) \<rparr>"

definition author_errors :: "author_fields \<Rightarrow> verror list" where
  \<comment> \<open>\<^verbatim>\<open>validationResult(req).array()\<close>: the errors of the chains, in the order of the chains\<close>
  "author_errors f =
     snd (first_name_field f) @ snd (family_name_field f)
       @ snd (date_of_birth_field f) @ snd (date_of_death_field f)"

definition new_Author :: "string \<Rightarrow> author_fields \<Rightarrow> author_doc" where
  "new_Author i f =
     \<lparr> a_id = i, a_first_name = fst (first_name_field f), a_family_name = fst (family_name_field f),
       a_date_of_birth = cast_date (fst (date_of_birth_field f)),
       a_date_of_death = cast_date (fst (date_of_death_field f)) \<rparr>"

definition author_create_post :: "date_lib \<Rightarrow> string \<Rightarrow> author_body \<Rightarrow> store \<Rightarrow> outcome" where
  "author_create_post L new_id body s =
     (let f = author_chains L body;
          errors = author_errors f;
          author = new_Author new_id f
      in if errors \<noteq> []
         then respond s [Render ''author_form'' ''Create author'' (AuthorForm (Some author) (Some errors))]
         else respond (s\<lparr>author_coll := save author (author_coll s)\<rparr>)
                [Redirect (Url Author (a_id author))])"

definition author_delete_get :: "string \<Rightarrow> store \<Rightarrow> outcome" where
  \<comment> \<open>the redirect is not followed by a \<^verbatim>\<open>return\<close>: the render comes after it\<close>
  "author_delete_get params_id s =
     (let author = findById a_id params_id (author_coll s);
          allBooksByAuthor = find_by_author params_id (book_coll s)
      in respond s
           ((if author = None then [Redirect (Path ''/catalog/authors'')] else [])
            @ [Render ''author_delete'' ''Delete author'' (AuthorDelete author allBooksByAuthor)]))"

definition author_delete_post :: "string \<Rightarrow> string \<Rightarrow> store \<Rightarrow> outcome" where
  \<comment> \<open>\<^verbatim>\<open>req.body.authorid\<close>, then \<^verbatim>\<open>req.params.id\<close>\<close>
  "author_delete_post body_id params_id s =
     (let author = findById a_id body_id (author_coll s);
          allBooksByAuthor = find_by_author body_id (book_coll s)
      in case author of
           None \<Rightarrow> respond s [Redirect (Path ''/catalog/authors'')]
         | Some a \<Rightarrow>
             if body_id \<noteq> params_id then respond s [Redirect (Path ''/catalog/authors'')]
             else if length allBooksByAuthor > 0
             then respond s [Render ''author_delete'' ''Delete author'' (AuthorDelete (Some a) allBooksByAuthor)]
             else respond (s\<lparr>author_coll := findByIdAndDelete a_id body_id (author_coll s)\<rparr>)
                    [Redirect (Path ''/catalog/authors'')])"

definition author_update_get :: "string \<Rightarrow> store \<Rightarrow> outcome" where
  "author_update_get params_id s =
     (case findById a_id params_id (author_coll s) of
        None \<Rightarrow> respond s [Redirect (Path ''/catalog/authors'')]
      | Some author \<Rightarrow>
          respond s [Render ''author_form'' ''Update author'' (AuthorForm (Some author) None)])"

definition author_update_post :: "date_lib \<Rightarrow> string \<Rightarrow> author_body \<Rightarrow> store \<Rightarrow> outcome" where
  \<comment> \<open>on errors the handler reads \<^verbatim>\<open>author\<close>, a name that nothing declares (the document
      is \<^verbatim>\<open>updatedAuthor\<close>): \<^verbatim>\<open>console.log(author)\<close> throws before the render\<close>
  "author_update_post L params_id body s =
     (let f = author_chains L body;
          errors = author_errors f;
          updatedAuthor = new_Author params_id f
      in if errors \<noteq> []
         then fail s [] (ReferenceError ''author is not defined'')
         else respond
                (s\<lparr>author_coll := snd (findByIdAndUpdate a_id (a_id updatedAuthor) updatedAuthor (author_coll s))\<rparr>)
                [Redirect (Url Author (a_id updatedAuthor))])"

section \<open>The book controller\<close>

datatype genre_field =
    Undefined \<comment> \<open>no \<^verbatim>\<open>genre\<close> value in the form\<close>
  | Scalar string \<comment> \<open>one value\<close>
  | Array "string list" \<comment> \<open>several values\<close>

record book_body =
  body_title :: "string option"
  body_author :: "string option"
  body_summary :: "string option"
  body_isbn :: "string option"
  body_genre :: genre_field

definition genre_to_array_create :: "book_body \<Rightarrow> book_body" where
  \<comment> \<open>the first middleware of \<^verbatim>\<open>book_create_post\<close>\<close>
  "genre_to_array_create body =
     (case body_genre body of
        Array xs \<Rightarrow> body
      | Undefined \<Rightarrow> body\<lparr>body_genre := Array []\<rparr>
      | Scalar x \<Rightarrow> body\<lparr>body_genre := Array [x]\<rparr>)"

definition genre_to_array_update :: "book_body \<Rightarrow> book_body" where
  \<comment> \<open>the first middleware of \<^verbatim>\<open>book_update_post\<close>; \<^verbatim>\<open>toString\<close> of a string is the string\<close>
  "genre_to_array_update body =
     (case body_genre body of
        Array xs \<Rightarrow> body
      | Undefined \<Rightarrow> body\<lparr>body_genre := Array []\<rparr>
      | Scalar x \<Rightarrow> body\<lparr>body_genre := Array [x]\<rparr>)"

definition escape_each :: "genre_field \<Rightarrow> genre_field" where
  \<comment> \<open>\<^verbatim>\<open>body("genre.*").escape()\<close>: every element of the array\<close>
  "escape_each g = (case g of Array xs \<Rightarrow> Array (map escape xs) | _ \<Rightarrow> g)"

definition cast_genre :: "genre_field \<Rightarrow> string list" where
  \<comment> \<open>the references of \<^verbatim>\<open>new Book({ genre: ... })\<close>\<close>
  "cast_genre g = (case g of Array xs \<Rightarrow> xs | Undefined \<Rightarrow> [] | Scalar x \<Rightarrow> [x])"

record book_fields =
  title_field :: "string \<times> verror list"
  author_field :: "string \<times> verror list"
  summary_field :: "string \<times> verror list"
  isbn_field :: "string \<times> verror list"
  genre_value :: genre_field

definition book_create_chains :: "book_body \<Rightarrow> book_fields" where
  "book_create_chains body =
     \<lparr> title_field = text_chain ''title'' ''Title must not be empty'' 1 (body_title body),
       author_field = text_chain ''author'' ''Author must not be empty'' 1 (body_author body),
       summary_field = text_chain ''summary'' ''Summary must not be empty'' 1 (body_summary body),
       isbn_field = text_chain ''isbn'' ''ISBN must not be empty'' 1 (body_isbn body),
       genre_value = escape_each (body_genre body) \<rparr>"

definition book_update_chains :: "book_body \<Rightarrow> book_fields" where
  "book_update_chains body =
     \<lparr> title_field = text_chain ''title'' ''Title must not be empty.'' 1 (body_title body),
       author_field = text_chain ''author'' ''Author must not be empty.'' 1 (body_author body),
       summary_field = text_chain ''summary'' ''Summary must not be empty.'' 1 (body_summary body),
       isbn_field = text_chain ''isbn'' ''ISBN must not be empty.'' 1 (body_isbn body),
       genre_value = escape_each (body_genre body) \<rparr>"

definition book_errors :: "book_fields \<Rightarrow> verror list" where
  "book_errors f =
     snd (title_field f) @ snd (author_field f) @ snd (summary_field f) @ snd (isbn_field f)"

definition new_Book :: "string \<Rightarrow> book_fields \<Rightarrow> book_doc" where
  "new_Book i f =
     \<lparr> b_id = i, b_title = fst (title_field f), b_author = fst (author_field f),
       b_summary = fst (summary_field f), b_isbn = fst (isbn_field f),
       b_genre = cast_genre (genre_value f) \<rparr>"

definition book_create_post :: "string \<Rightarrow> book_body \<Rightarrow> store \<Rightarrow> outcome" where
  \<comment> \<open>on success the handler calls \<^verbatim>\<open>book.dave()\<close>, which no document has: the call
      throws, and neither \<^verbatim>\<open>save\<close> nor the redirect is reached\<close>
  "book_create_post new_id body0 s =
     (let f = book_create_chains (genre_to_array_create body0);
          errors = book_errors f;
          book = new_Book new_id f
      in if errors \<noteq> []
         then respond s
                [Render ''book_form'' ''Create Book''
                   (BookForm (author_coll s) (genre_coll s) (Some book) (Some errors))]
         else fail s [] (TypeError ''book.dave is not a function''))"

definition book_delete_get :: "string \<Rightarrow> store \<Rightarrow> outcome" where
  \<comment> \<open>the redirect is not followed by a \<^verbatim>\<open>return\<close>: the render comes after it\<close>
  "book_delete_get params_id s =
     (let book = findById b_id params_id (book_coll s);
          instancesOfBook = find_by_book params_id (bookinstance_coll s)
      in respond s
           ((if book = None then [Redirect (Path ''/catalog/books'')] else [])
            @ [Render ''book_delete'' ''Delete Book'' (BookDelete book instancesOfBook)]))"

definition book_delete_post :: "string \<Rightarrow> string \<Rightarrow> store \<Rightarrow> outcome" where
  \<comment> \<open>\<^verbatim>\<open>req.body.bookid\<close>, then \<^verbatim>\<open>req.params.id\<close>\<close>
  "book_delete_post body_id params_id s =
     (let book = findById b_id body_id (book_coll s);
          instancesOfBook = find_by_book body_id (bookinstance_coll s)
      in case book of
           None \<Rightarrow> respond s [Redirect (Path ''/catalog/books'')]
         | Some b \<Rightarrow>
             if params_id \<noteq> body_id then respond s [Redirect (Path ''/catalog/books'')]
             else if length instancesOfBook > 0
             then respond s [Render ''book_delete'' ''Delete Book'' (BookDelete (Some b) instancesOfBook)]
             else respond (s\<lparr>book_coll := findByIdAndDelete b_id body_id (book_coll s)\<rparr>)
                    [Redirect (Path ''/catalog/books'')])"

definition book_update_get :: "string \<Rightarrow> store \<Rightarrow> outcome" where
  "book_update_get params_id s =
     (case findById b_id params_id (book_coll s) of
        None \<Rightarrow> fail s [] (NotFound ''Book not found'')
      | Some book \<Rightarrow>
          respond s
            [Render ''book_form'' ''Update Book''
               (BookUpdateForm (author_coll s) (genre_coll s) (populate_book s book))])"

definition book_update_post :: "string \<Rightarrow> book_body \<Rightarrow> store \<Rightarrow> outcome" where
  \<comment> \<open>\<^verbatim>\<open>updatedBook\<close> is the document as it was, or \<^verbatim>\<open>null\<close> when the id names none:
      reading \<^verbatim>\<open>url\<close> of \<^verbatim>\<open>null\<close> throws\<close>
  "book_update_post params_id body0 s =
     (let f = book_update_chains (genre_to_array_update body0);
          errors = book_errors f;
          book = new_Book params_id f
      in if errors \<noteq> []
         then respond s
                [Render ''book_form'' ''Update Book''
                   (BookForm (author_coll s) (genre_coll s) (Some book) (Some errors))]
         else (case findByIdAndUpdate b_id params_id book (book_coll s) of
                 (None, coll) \<Rightarrow>
                   fail (s\<lparr>book_coll := coll\<rparr>) []
                     (TypeError ''Cannot read properties of null (reading url)'')
               | (Some updatedBook, coll) \<Rightarrow>
                   respond (s\<lparr>book_coll := coll\<rparr>) [Redirect (Url Book (b_id updatedBook))]))"

section \<open>The book instance controller\<close>

record bookinstance_body =
  body_book :: "string option"
  body_imprint :: "string option"
  body_status :: "string option"
  body_due_back :: "string option"

record bookinstance_fields =
  book_field :: "string \<times> verror list"
  imprint_field :: "string \<times> verror list"
  status_value :: string
  due_back_field :: "date_value \<times> verror list"

definition bookinstance_chains :: "date_lib \<Rightarrow> bookinstance_body \<Rightarrow> bookinstance_fields" where
  \<comment> \<open>the four chains of \<^verbatim>\<open>bookinstance_create_post\<close>; \<^verbatim>\<open>bookinstance_update_post\<close> has
      the same four\<close>
  "bookinstance_chains L body =
     \<lparr> book_field = text_chain ''book'' ''Book must be specified.'' 1 (body_book body),
       imprint_field = text_chain ''imprint'' ''Imprint must be specified.'' 1 (body_imprint body),
       status_value = escape_chain (body_status body),
       due_back_field = date_chain L ''due_back'' ''Invalid date.'' (body_due_back body) \<rparr>"

definition bookinstance_errors :: "bookinstance_fields \<Rightarrow> verror list" where
  "bookinstance_errors f =
     snd (book_field f) @ snd (imprint_field f) @ snd (due_back_field f)"

definition new_BookInstance :: "string \<Rightarrow> bookinstance_fields \<Rightarrow> bookinstance_doc" where
  "new_BookInstance i f =
     \<lparr> i_id = i, i_book = fst (book_field f), i_imprint = fst (imprint_field f),
       i_status = status_value f, i_due_back = cast_date (fst (due_back_field f)) \<rparr>"

definition bookinstance_create_post ::
    "date_lib \<Rightarrow> string \<Rightarrow> bookinstance_body \<Rightarrow> store \<Rightarrow> outcome" where
  "bookinstance_create_post L new_id body s =
     (let f = bookinstance_chains L body;
          errors = bookinstance_errors f;
          bookInstance = new_BookInstance new_id f
      in if errors \<noteq> []
         then respond s
                [Render ''bookinstance_form'' ''Create BookInstance''
                   (BookInstanceForm (find_titles (book_coll s)) (Some errors)
                      (Some (i_book bookInstance)) (Some bookInstance))]
         else respond (s\<lparr>bookinstance_coll := save bookInstance (bookinstance_coll s)\<rparr>)
                [Redirect (Url BookInstance (i_id bookInstance))])"

definition bookinstance_delete_get :: "string \<Rightarrow> store \<Rightarrow> outcome" where
  "bookinstance_delete_get params_id s =
     (case findById i_id params_id (bookinstance_coll s) of
        None \<Rightarrow> respond s [Redirect (Path ''/catalog/bookinstances'')]
      | Some bookInstance \<Rightarrow>
          respond s
            [Render ''bookinstance_delete'' ''Delete bookinstance'' (BookInstanceDelete bookInstance)])"

definition bookinstance_delete_post :: "string \<Rightarrow> string \<Rightarrow> store \<Rightarrow> outcome" where
  \<comment> \<open>\<^verbatim>\<open>req.body.bookinstanceid\<close>, then \<^verbatim>\<open>req.params.id\<close>. The delete comes before
      \<^verbatim>\<open>book.url\<close> is read, and \<^verbatim>\<open>book\<close> is \<^verbatim>\<open>null\<close> when the reference names no book\<close>
  "bookinstance_delete_post body_id params_id s =
     (case findById i_id body_id (bookinstance_coll s) of
        None \<Rightarrow> respond s [Redirect (Path ''/catalog/bookinstances'')]
      | Some bookInstance \<Rightarrow>
          if body_id \<noteq> params_id then respond s [Redirect (Path ''/catalog/bookinstances'')]
          else
            (let book = findById b_id (i_book bookInstance) (book_coll s);
                 s' = s\<lparr>bookinstance_coll := findByIdAndDelete i_id body_id (bookinstance_coll s)\<rparr>
             in case book of
                  None \<Rightarrow> fail s' [] (TypeError ''Cannot read properties of null (reading url)'')
                | Some b \<Rightarrow> respond s' [Redirect (Url Book (b_id b))]))"

definition bookinstance_update_get :: "string \<Rightarrow> store \<Rightarrow> outcome" where
  \<comment> \<open>no test of the document that was found: \<^verbatim>\<open>bookInstance.book\<close> of \<^verbatim>\<open>null\<close> throws\<close>
  "bookinstance_update_get params_id s =
     (let bookInstance = findById i_id params_id (bookinstance_coll s);
          allbooks = find_titles (book_coll s)
      in case bookInstance of
           None \<Rightarrow> fail s [] (TypeError ''Cannot read properties of null (reading book)'')
         | Some c \<Rightarrow>
             respond s
               [Render ''bookinstance_form'' ''Update BookInstance''
                  (BookInstanceForm allbooks None (Some (i_book c)) (Some c))])"

definition bookinstance_update_post ::
    "date_lib \<Rightarrow> string \<Rightarrow> bookinstance_body \<Rightarrow> store \<Rightarrow> outcome" where
  "bookinstance_update_post L params_id body s =
     (let f = bookinstance_chains L body;
          errors = bookinstance_errors f;
          updatedBookInstance = new_BookInstance params_id f
      in if errors \<noteq> []
         then respond s
                [Render ''bookinstance_form'' ''Update BookInstance''
                   (BookInstanceForm (find_titles (book_coll s)) (Some errors)
                      (Some (i_book updatedBookInstance)) (Some updatedBookInstance))]
         else respond
                (s\<lparr>bookinstance_coll :=
                     snd (findByIdAndUpdate i_id (i_id updatedBookInstance) updatedBookInstance
                            (bookinstance_coll s))\<rparr>)
                [Redirect (Url BookInstance (i_id updatedBookInstance))])"

section \<open>A sample catalogue\<close>

definition sample_store :: store where
  \<comment> \<open>two authors, two genres and two books, of which \<open>a2\<close>, \<open>g2\<close> and \<open>b2\<close> have no
      dependents; the copy \<open>i2\<close> refers to a book that is not in the store\<close>
  "sample_store =
     \<lparr> author_coll =
         [\<lparr> a_id = ''a1'', a_first_name = ''Frank'', a_family_name = ''Herbert'',
            a_date_of_birth = None, a_date_of_death = None \<rparr>,
          \<lparr> a_id = ''a2'', a_first_name = ''Ursula'', a_family_name = ''LeGuin'',
            a_date_of_birth = None, a_date_of_death = None \<rparr>],
       genre_coll =
         [\<lparr> g_id = ''g1'', g_name = ''Fiction'' \<rparr>, \<lparr> g_id = ''g2'', g_name = ''Poetry'' \<rparr>],
       book_coll =
         [\<lparr> b_id = ''b1'', b_title = ''Dune'', b_author = ''a1'', b_summary = ''Sand'',
            b_isbn = ''9780441172719'', b_genre = [''g1''] \<rparr>,
          \<lparr> b_id = ''b2'', b_title = ''Children of Dune'', b_author = ''a1'', b_summary = ''More sand'',
            b_isbn = ''9780441104024'', b_genre = [] \<rparr>],
       bookinstance_coll =
         [\<lparr> i_id = ''i1'', i_book = ''b1'', i_imprint = ''Ace 1990'', i_status = ''Available'',
            i_due_back = None \<rparr>,
          \<lparr> i_id = ''i2'', i_book = ''b9'', i_imprint = ''Chilton 1965'', i_status = ''Loaned'',
            i_due_back = Some 20300101 \<rparr>] \<rparr>"

section \<open>Creating a book\<close>

lemma book_create_post_store: "out_store (book_create_post i body s) = s"
  by (simp add: book_create_post_def Let_def respond_def fail_def)

lemma book_create_post_valid:
  "book_errors (book_create_chains (genre_to_array_create body)) = [] \<Longrightarrow>
   book_create_post i body s = fail s [] (TypeError ''book.dave is not a function'')"
  by (simp add: book_create_post_def Let_def)

text \<open>
  C1. A Book create submission whose fields pass validation should persist the new
  Book and redirect to its detail location. The handler does neither: on the valid
  submission below the store is left as it was, no call is made on the response, and
  the handler ends with the TypeError of \<^verbatim>\<open>book.dave()\<close>. (By
  \<open>book_create_post_valid\<close> this is so for every submission that passes validation.)
\<close>

theorem book_create_post_valid_throws:
  "book_create_post ''b1''
     \<lparr> body_title = Some ''Dune'', body_author = Some ''a1'', body_summary = Some ''Sand'',
       body_isbn = Some ''9780441172719'', body_genre = Array [''g1''] \<rparr> empty_store
   = \<lparr> out_store = empty_store, out_calls = [],
       out_error = Some (TypeError ''book.dave is not a function'') \<rparr>"
  by (simp add: book_create_post_def book_create_chains_def genre_to_array_create_def
      book_errors_def text_chain_def trim_def is_space_def isLength_def to_string_def
      fail_def Let_def)

section \<open>Updating an author\<close>

lemma author_update_post_errors:
  "author_errors (author_chains L body) \<noteq> [] \<Longrightarrow>
   author_update_post L i body s = fail s [] (ReferenceError ''author is not defined'')"
  by (simp add: author_update_post_def Let_def)

text \<open>
  C2. An Author update submission that fails validation should re-render the update
  form with the errors and the submitted values, without persisting. The handler
  persists nothing, but it does not render either: on the submission below (an empty
  first name) no call is made on the response and the handler ends with the
  ReferenceError of \<^verbatim>\<open>console.log(author)\<close>. (By \<open>author_update_post_errors\<close> this is
  so for every submission that fails validation.)
\<close>

theorem author_update_post_invalid_throws:
  "author_update_post ymd_lib ''a1''
     \<lparr> body_first_name = Some '''', body_family_name = Some ''Herbert'',
       body_date_of_birth = Some '''', body_date_of_death = None \<rparr>
     (empty_store\<lparr>author_coll :=
        [\<lparr> a_id = ''a1'', a_first_name = ''Frank'', a_family_name = ''Herbert'',
           a_date_of_birth = None, a_date_of_death = None \<rparr>]\<rparr>)
   = \<lparr> out_store = empty_store\<lparr>author_coll :=
        [\<lparr> a_id = ''a1'', a_first_name = ''Frank'', a_family_name = ''Herbert'',
           a_date_of_birth = None, a_date_of_death = None \<rparr>]\<rparr>,
       out_calls = [],
       out_error = Some (ReferenceError ''author is not defined'') \<rparr>"
  by (simp add: author_update_post_def author_chains_def author_errors_def name_chain_def
      date_chain_def trim_def is_space_def isLength_def isAlphanumeric_def is_alnum_def
      escape_def to_string_def fail_def Let_def)

section \<open>Deleting a genre, an author or a book\<close>

lemma findById_deleted: "findById ident i (findByIdAndDelete ident i coll) = None"
  by (simp add: findById_def findByIdAndDelete_def find_None_iff)

lemma genre_delete_post_blocked:
  assumes "findById g_id i (genre_coll s) = Some g" and "find_by_genre i (book_coll s) \<noteq> []"
  shows "genre_delete_post i i s =
    respond s [Render ''genre_delete'' ''Delete Genre'' (GenreDelete (Some g) (find_by_genre i (book_coll s)))]"
  using assms by (simp add: genre_delete_post_def Let_def)

lemma genre_delete_post_free:
  assumes "findById g_id i (genre_coll s) = Some g" and "find_by_genre i (book_coll s) = []"
  shows "genre_delete_post i i s =
    respond (s\<lparr>genre_coll := findByIdAndDelete g_id i (genre_coll s)\<rparr>) [Redirect (Path ''/catalog/genres'')]"
  using assms by (simp add: genre_delete_post_def Let_def)

lemma author_delete_post_blocked:
  assumes "findById a_id i (author_coll s) = Some a" and "find_by_author i (book_coll s) \<noteq> []"
  shows "author_delete_post i i s =
    respond s [Render ''author_delete'' ''Delete author'' (AuthorDelete (Some a) (find_by_author i (book_coll s)))]"
  using assms by (simp add: author_delete_post_def Let_def)

lemma author_delete_post_free:
  assumes "findById a_id i (author_coll s) = Some a" and "find_by_author i (book_coll s) = []"
  shows "author_delete_post i i s =
    respond (s\<lparr>author_coll := findByIdAndDelete a_id i (author_coll s)\<rparr>) [Redirect (Path ''/catalog/authors'')]"
  using assms by (simp add: author_delete_post_def Let_def)

lemma book_delete_post_blocked:
  assumes "findById b_id i (book_coll s) = Some b" and "find_by_book i (bookinstance_coll s) \<noteq> []"
  shows "book_delete_post i i s =
    respond s [Render ''book_delete'' ''Delete Book'' (BookDelete (Some b) (find_by_book i (bookinstance_coll s)))]"
  using assms by (simp add: book_delete_post_def Let_def)

lemma book_delete_post_free:
  assumes "findById b_id i (book_coll s) = Some b" and "find_by_book i (bookinstance_coll s) = []"
  shows "book_delete_post i i s =
    respond (s\<lparr>book_coll := findByIdAndDelete b_id i (book_coll s)\<rparr>) [Redirect (Path ''/catalog/books'')]"
  using assms by (simp add: book_delete_post_def Let_def)

text \<open>
  C3. For a Genre, an Author or a Book that exists, the delete operation with the same
  id in the body and in the path: when the entity has a dependent (a Book whose genre
  array holds the Genre, a Book of the Author, a BookInstance of the Book) the store is
  left as it is and the one call on the response renders the delete-confirmation view
  with the entity and the list of its dependents; when it has none, the entity is
  removed from its collection (no document with this id is left) and the one call is
  the redirect to the list view.
\<close>

theorem delete_post_blocked_by_dependents:
  "(findById g_id i (genre_coll s) = Some g \<longrightarrow>
      (find_by_genre i (book_coll s) \<noteq> [] \<longrightarrow>
         out_store (genre_delete_post i i s) = s \<and>
         out_calls (genre_delete_post i i s) =
           [Render ''genre_delete'' ''Delete Genre''
              (GenreDelete (Some g) (filter (\<lambda>b. i \<in> set (b_genre b)) (book_coll s)))] \<and>
         out_error (genre_delete_post i i s) = None) \<and>
      (find_by_genre i (book_coll s) = [] \<longrightarrow>
         findById g_id i (genre_coll (out_store (genre_delete_post i i s))) = None \<and>
         out_store (genre_delete_post i i s) = s\<lparr>genre_coll := filter (\<lambda>d. g_id d \<noteq> i) (genre_coll s)\<rparr> \<and>
         out_calls (genre_delete_post i i s) = [Redirect (Path ''/catalog/genres'')] \<and>
         out_error (genre_delete_post i i s) = None)) \<and>
   (findById a_id i (author_coll s) = Some a \<longrightarrow>
      (find_by_author i (book_coll s) \<noteq> [] \<longrightarrow>
         out_store (author_delete_post i i s) = s \<and>
         out_calls (author_delete_post i i s) =
           [Render ''author_delete'' ''Delete author''
              (AuthorDelete (Some a) (find_by_author i (book_coll s)))] \<and>
         out_error (author_delete_post i i s) = None) \<and>
      (find_by_author i (book_coll s) = [] \<longrightarrow>
         findById a_id i (author_coll (out_store (author_delete_post i i s))) = None \<and>
         out_store (author_delete_post i i s) = s\<lparr>author_coll := filter (\<lambda>d. a_id d \<noteq> i) (author_coll s)\<rparr> \<and>
         out_calls (author_delete_post i i s) = [Redirect (Path ''/catalog/authors'')] \<and>
         out_error (author_delete_post i i s) = None)) \<and>
   (findById b_id i (book_coll s) = Some b \<longrightarrow>
      (find_by_book i (bookinstance_coll s) \<noteq> [] \<longrightarrow>
         out_store (book_delete_post i i s) = s \<and>
         out_calls (book_delete_post i i s) =
           [Render ''book_delete'' ''Delete Book''
              (BookDelete (Some b) (filter (\<lambda>c. i_book c = i) (bookinstance_coll s)))] \<and>
         out_error (book_delete_post i i s) = None) \<and>
      (find_by_book i (bookinstance_coll s) = [] \<longrightarrow>
         findById b_id i (book_coll (out_store (book_delete_post i i s))) = None \<and>
         out_store (book_delete_post i i s) = s\<lparr>book_coll := filter (\<lambda>d. b_id d \<noteq> i) (book_coll s)\<rparr> \<and>
         out_calls (book_delete_post i i s) = [Redirect (Path ''/catalog/books'')] \<and>
         out_error (book_delete_post i i s) = None))"
proof (intro conjI impI)
  assume h: "findById g_id i (genre_coll s) = Some g" "find_by_genre i (book_coll s) \<noteq> []"
  note r = genre_delete_post_blocked [OF h]
  show "out_store (genre_delete_post i i s) = s" by (simp add: r respond_def)
  show "out_calls (genre_delete_post i i s) =
           [Render ''genre_delete'' ''Delete Genre''
              (GenreDelete (Some g) (filter (\<lambda>b. i \<in> set (b_genre b)) (book_coll s)))]"
    by (simp add: r respond_def find_by_genre_def)
  show "out_error (genre_delete_post i i s) = None" by (simp add: r respond_def)
next
  assume h: "findById g_id i (genre_coll s) = Some g" "find_by_genre i (book_coll s) = []"
  note r = genre_delete_post_free [OF h]
  show "findById g_id i (genre_coll (out_store (genre_delete_post i i s))) = None"
    by (simp add: r respond_def findById_deleted)
  show "out_store (genre_delete_post i i s) = s\<lparr>genre_coll := filter (\<lambda>d. g_id d \<noteq> i) (genre_coll s)\<rparr>"
    by (simp add: r respond_def findByIdAndDelete_def)
  show "out_calls (genre_delete_post i i s) = [Redirect (Path ''/catalog/genres'')]"
    by (simp add: r respond_def)
  show "out_error (genre_delete_post i i s) = None" by (simp add: r respond_def)
next
  assume h: "findById a_id i (author_coll s) = Some a" "find_by_author i (book_coll s) \<noteq> []"
  note r = author_delete_post_blocked [OF h]
  show "out_store (author_delete_post i i s) = s" by (simp add: r respond_def)
  show "out_calls (author_delete_post i i s) =
           [Render ''author_delete'' ''Delete author''
              (AuthorDelete (Some a) (find_by_author i (book_coll s)))]"
    by (simp add: r respond_def)
  show "out_error (author_delete_post i i s) = None" by (simp add: r respond_def)
next
  assume h: "findById a_id i (author_coll s) = Some a" "find_by_author i (book_coll s) = []"
  note r = author_delete_post_free [OF h]
  show "findById a_id i (author_coll (out_store (author_delete_post i i s))) = None"
    by (simp add: r respond_def findById_deleted)
  show "out_store (author_delete_post i i s) = s\<lparr>author_coll := filter (\<lambda>d. a_id d \<noteq> i) (author_coll s)\<rparr>"
    by (simp add: r respond_def findByIdAndDelete_def)
  show "out_calls (author_delete_post i i s) = [Redirect (Path ''/catalog/authors'')]"
    by (simp add: r respond_def)
  show "out_error (author_delete_post i i s) = None" by (simp add: r respond_def)
next
  assume h: "findById b_id i (book_coll s) = Some b" "find_by_book i (bookinstance_coll s) \<noteq> []"
  note r = book_delete_post_blocked [OF h]
  show "out_store (book_delete_post i i s) = s" by (simp add: r respond_def)
  show "out_calls (book_delete_post i i s) =
           [Render ''book_delete'' ''Delete Book''
              (BookDelete (Some b) (filter (\<lambda>c. i_book c = i) (bookinstance_coll s)))]"
    by (simp add: r respond_def find_by_book_def)
  show "out_error (book_delete_post i i s) = None" by (simp add: r respond_def)
next
  assume h: "findById b_id i (book_coll s) = Some b" "find_by_book i (bookinstance_coll s) = []"
  note r = book_delete_post_free [OF h]
  show "findById b_id i (book_coll (out_store (book_delete_post i i s))) = None"
    by (simp add: r respond_def findById_deleted)
  show "out_store (book_delete_post i i s) = s\<lparr>book_coll := filter (\<lambda>d. b_id d \<noteq> i) (book_coll s)\<rparr>"
    by (simp add: r respond_def findByIdAndDelete_def)
  show "out_calls (book_delete_post i i s) = [Redirect (Path ''/catalog/books'')]"
    by (simp add: r respond_def)
  show "out_error (book_delete_post i i s) = None" by (simp add: r respond_def)
qed

theorem delete_post_blocked_by_dependents_witness:
  "out_store (genre_delete_post ''g1'' ''g1'' sample_store) = sample_store \<and>
   findById g_id ''g2'' (genre_coll (out_store (genre_delete_post ''g2'' ''g2'' sample_store))) = None \<and>
   out_store (author_delete_post ''a1'' ''a1'' sample_store) = sample_store \<and>
   findById a_id ''a2'' (author_coll (out_store (author_delete_post ''a2'' ''a2'' sample_store))) = None \<and>
   out_store (book_delete_post ''b1'' ''b1'' sample_store) = sample_store \<and>
   findById b_id ''b2'' (book_coll (out_store (book_delete_post ''b2'' ''b2'' sample_store))) = None"
proof -
  have g1: "findById g_id ''g1'' (genre_coll sample_store) = Some \<lparr> g_id = ''g1'', g_name = ''Fiction'' \<rparr>"
      "find_by_genre ''g1'' (book_coll sample_store) \<noteq> []"
    by (simp_all add: sample_store_def findById_def find_by_genre_def)
  have g2: "findById g_id ''g2'' (genre_coll sample_store) = Some \<lparr> g_id = ''g2'', g_name = ''Poetry'' \<rparr>"
      "find_by_genre ''g2'' (book_coll sample_store) = []"
    by (simp_all add: sample_store_def findById_def find_by_genre_def)
  have a1: "findById a_id ''a1'' (author_coll sample_store) = Some (hd (author_coll sample_store))"
      "find_by_author ''a1'' (book_coll sample_store) \<noteq> []"
    by (simp_all add: sample_store_def findById_def find_by_author_def)
  have a2: "findById a_id ''a2'' (author_coll sample_store) = Some (last (author_coll sample_store))"
      "find_by_author ''a2'' (book_coll sample_store) = []"
    by (simp_all add: sample_store_def findById_def find_by_author_def)
  have b1: "findById b_id ''b1'' (book_coll sample_store) = Some (hd (book_coll sample_store))"
      "find_by_book ''b1'' (bookinstance_coll sample_store) \<noteq> []"
    by (simp_all add: sample_store_def findById_def find_by_book_def)
  have b2: "findById b_id ''b2'' (book_coll sample_store) = Some (last (book_coll sample_store))"
      "find_by_book ''b2'' (bookinstance_coll sample_store) = []"
    by (simp_all add: sample_store_def findById_def find_by_book_def)
  have 1: "out_store (genre_delete_post ''g1'' ''g1'' sample_store) = sample_store"
    using g1 delete_post_blocked_by_dependents [where i = "''g1''" and s = sample_store] by blast
  have 2: "findById g_id ''g2'' (genre_coll (out_store (genre_delete_post ''g2'' ''g2'' sample_store))) = None"
    using g2 delete_post_blocked_by_dependents [where i = "''g2''" and s = sample_store] by blast
  have 3: "out_store (author_delete_post ''a1'' ''a1'' sample_store) = sample_store"
    using a1 delete_post_blocked_by_dependents [where i = "''a1''" and s = sample_store] by blast
  have 4: "findById a_id ''a2'' (author_coll (out_store (author_delete_post ''a2'' ''a2'' sample_store))) = None"
    using a2 delete_post_blocked_by_dependents [where i = "''a2''" and s = sample_store] by blast
  have 5: "out_store (book_delete_post ''b1'' ''b1'' sample_store) = sample_store"
    using b1 delete_post_blocked_by_dependents [where i = "''b1''" and s = sample_store] by blast
  have 6: "findById b_id ''b2'' (book_coll (out_store (book_delete_post ''b2'' ''b2'' sample_store))) = None"
    using b2 delete_post_blocked_by_dependents [where i = "''b2''" and s = sample_store] by blast
  from 1 2 3 4 5 6 show ?thesis by simp
qed

section \<open>Creating a genre\<close>

lemma findOne_name_Some:
  "findOne_name n coll = Some g \<Longrightarrow> g \<in> set coll \<and> collation_eq (g_name g) n"
  by (auto simp: findOne_name_def find_Some_iff)

lemma findOne_name_None:
  "(findOne_name n coll = None) = (\<forall>g \<in> set coll. \<not> collation_eq (g_name g) n)"
  by (auto simp: findOne_name_def find_None_iff)

lemma genre_create_post_existing:
  assumes "isLength 3 (trim (to_string (body_name body)))"
    and "findOne_name (escape (trim (to_string (body_name body)))) (genre_coll s) = Some g"
  shows "genre_create_post new_id body s = respond s [Redirect (Url Genre (g_id g))]"
  using assms by (simp add: genre_create_post_def genre_chain_def text_chain_def Let_def)

lemma genre_create_post_new:
  assumes "isLength 3 (trim (to_string (body_name body)))"
    and "findOne_name (escape (trim (to_string (body_name body)))) (genre_coll s) = None"
  shows "genre_create_post new_id body s =
    respond (s\<lparr>genre_coll := genre_coll s @ [\<lparr>g_id = new_id, g_name = escape (trim (to_string (body_name body)))\<rparr>]\<rparr>)
      [Redirect (Url Genre new_id)]"
  using assms by (simp add: genre_create_post_def genre_chain_def text_chain_def Let_def save_def)

lemma genre_create_post_invalid:
  assumes "\<not> isLength 3 (trim (to_string (body_name body)))"
  shows "out_store (genre_create_post new_id body s) = s"
  using assms by (simp add: genre_create_post_def genre_chain_def text_chain_def Let_def respond_def)

lemma fiction_twice:
  "genre_coll (out_store (genre_create_post i2 \<lparr>body_name = Some ''FICTION''\<rparr>
       (out_store (genre_create_post i1 \<lparr>body_name = Some ''Fiction''\<rparr> empty_store))))
     = [\<lparr>g_id = i1, g_name = ''Fiction''\<rparr>] \<and>
   out_calls (genre_create_post i2 \<lparr>body_name = Some ''FICTION''\<rparr>
       (out_store (genre_create_post i1 \<lparr>body_name = Some ''Fiction''\<rparr> empty_store)))
     = [Redirect (Url Genre i1)]"
  by (simp add: genre_create_post_def genre_chain_def text_chain_def trim_def is_space_def
      escape_def isLength_def to_string_def findOne_name_def collation_eq_def to_lower_def
      respond_def save_def empty_store_def Let_def)

text \<open>
  C4. Genre creation, where \<open>n\<close> is the submitted name after the chain (trimmed, then
  escaped) and the name is valid when its trimmed length is at least 3. If the name is
  valid and a stored Genre has a name equal to \<open>n\<close> up to case, the store is left as it
  is and the response redirects to the location of such a Genre (the first one). If the
  name is valid and no stored Genre matches, the new Genre named \<open>n\<close> is appended and
  the response redirects to its location. If the name is not valid, nothing is
  persisted. So creating "Fiction" in an empty store and then "FICTION" leaves exactly
  one Genre, named "Fiction", and the second call redirects to it.
\<close>

theorem genre_create_post_case_insensitive:
  assumes n: "n = escape (trim (to_string (body_name body)))"
  shows "(isLength 3 (trim (to_string (body_name body))) \<and>
          (\<exists>g \<in> set (genre_coll s). collation_eq (g_name g) n) \<longrightarrow>
            out_store (genre_create_post new_id body s) = s \<and>
            out_error (genre_create_post new_id body s) = None \<and>
            (\<exists>g \<in> set (genre_coll s). collation_eq (g_name g) n \<and>
               out_calls (genre_create_post new_id body s) = [Redirect (Url Genre (g_id g))])) \<and>
         (isLength 3 (trim (to_string (body_name body))) \<and>
          (\<forall>g \<in> set (genre_coll s). \<not> collation_eq (g_name g) n) \<longrightarrow>
            out_store (genre_create_post new_id body s) =
              s\<lparr>genre_coll := genre_coll s @ [\<lparr>g_id = new_id, g_name = n\<rparr>]\<rparr> \<and>
            out_error (genre_create_post new_id body s) = None \<and>
            out_calls (genre_create_post new_id body s) = [Redirect (Url Genre new_id)]) \<and>
         (\<not> isLength 3 (trim (to_string (body_name body))) \<longrightarrow>
            out_store (genre_create_post new_id body s) = s) \<and>
         genre_coll (out_store (genre_create_post i2 \<lparr>body_name = Some ''FICTION''\<rparr>
             (out_store (genre_create_post i1 \<lparr>body_name = Some ''Fiction''\<rparr> empty_store))))
           = [\<lparr>g_id = i1, g_name = ''Fiction''\<rparr>] \<and>
         out_calls (genre_create_post i2 \<lparr>body_name = Some ''FICTION''\<rparr>
             (out_store (genre_create_post i1 \<lparr>body_name = Some ''Fiction''\<rparr> empty_store)))
           = [Redirect (Url Genre i1)]"
proof (intro conjI impI)
  assume h: "isLength 3 (trim (to_string (body_name body))) \<and>
          (\<exists>g \<in> set (genre_coll s). collation_eq (g_name g) n)"
  then obtain g where g: "findOne_name n (genre_coll s) = Some g"
    using findOne_name_None [of n "genre_coll s"] by (cases "findOne_name n (genre_coll s)") auto
  have r: "genre_create_post new_id body s = respond s [Redirect (Url Genre (g_id g))]"
    using h g genre_create_post_existing [of body s g new_id] by (simp add: n)
  show "out_store (genre_create_post new_id body s) = s" by (simp add: r respond_def)
  show "out_error (genre_create_post new_id body s) = None" by (simp add: r respond_def)
  show "\<exists>g \<in> set (genre_coll s). collation_eq (g_name g) n \<and>
               out_calls (genre_create_post new_id body s) = [Redirect (Url Genre (g_id g))]"
    using findOne_name_Some [OF g] by (auto simp: r respond_def)
next
  assume h: "isLength 3 (trim (to_string (body_name body))) \<and>
          (\<forall>g \<in> set (genre_coll s). \<not> collation_eq (g_name g) n)"
  then have "findOne_name n (genre_coll s) = None" by (simp add: findOne_name_None)
  then have r: "genre_create_post new_id body s =
      respond (s\<lparr>genre_coll := genre_coll s @ [\<lparr>g_id = new_id, g_name = n\<rparr>]\<rparr>) [Redirect (Url Genre new_id)]"
    using h genre_create_post_new [of body s new_id] by (simp add: n)
  show "out_store (genre_create_post new_id body s) =
              s\<lparr>genre_coll := genre_coll s @ [\<lparr>g_id = new_id, g_name = n\<rparr>]\<rparr>" by (simp add: r respond_def)
  show "out_error (genre_create_post new_id body s) = None" by (simp add: r respond_def)
  show "out_calls (genre_create_post new_id body s) = [Redirect (Url Genre new_id)]" by (simp add: r respond_def)
next
  assume "\<not> isLength 3 (trim (to_string (body_name body)))"
  then show "out_store (genre_create_post new_id body s) = s" by (rule genre_create_post_invalid)
next
  show "genre_coll (out_store (genre_create_post i2 \<lparr>body_name = Some ''FICTION''\<rparr>
             (out_store (genre_create_post i1 \<lparr>body_name = Some ''Fiction''\<rparr> empty_store))))
           = [\<lparr>g_id = i1, g_name = ''Fiction''\<rparr>]" using fiction_twice by blast
  show "out_calls (genre_create_post i2 \<lparr>body_name = Some ''FICTION''\<rparr>
             (out_store (genre_create_post i1 \<lparr>body_name = Some ''Fiction''\<rparr> empty_store)))
           = [Redirect (Url Genre i1)]" using fiction_twice by blast
qed

theorem genre_create_post_case_insensitive_witness:
  "out_store (genre_create_post ''g3'' \<lparr>body_name = Some '' poetry ''\<rparr> sample_store) = sample_store \<and>
   out_calls (genre_create_post ''g3'' \<lparr>body_name = Some '' poetry ''\<rparr> sample_store)
     = [Redirect (Url Genre ''g2'')] \<and>
   genre_coll (out_store (genre_create_post ''g3'' \<lparr>body_name = Some ''Drama''\<rparr> sample_store))
     = genre_coll sample_store @ [\<lparr>g_id = ''g3'', g_name = ''Drama''\<rparr>] \<and>
   out_store (genre_create_post ''g3'' \<lparr>body_name = Some ''Po''\<rparr> sample_store) = sample_store"
proof -
  let ?p = "\<lparr>body_name = Some '' poetry ''\<rparr>" and ?d = "\<lparr>body_name = Some ''Drama''\<rparr>"
    and ?o = "\<lparr>body_name = Some ''Po''\<rparr>"
  have t: "trim (to_string (body_name ?p)) = ''poetry''"
      "trim (to_string (body_name ?d)) = ''Drama''"
      "trim (to_string (body_name ?o)) = ''Po''"
    by (simp_all add: trim_def is_space_def to_string_def)
  have n: "''poetry'' = escape (trim (to_string (body_name ?p)))"
      "''Drama'' = escape (trim (to_string (body_name ?d)))"
      "''Po'' = escape (trim (to_string (body_name ?o)))"
    unfolding t by (simp_all add: escape_def)
  have v: "isLength 3 (trim (to_string (body_name ?p)))"
      "isLength 3 (trim (to_string (body_name ?d)))"
      "\<not> isLength 3 (trim (to_string (body_name ?o)))"
    unfolding t by (simp_all add: isLength_def)
  have c: "genre_coll sample_store =
      [\<lparr> g_id = ''g1'', g_name = ''Fiction'' \<rparr>, \<lparr> g_id = ''g2'', g_name = ''Poetry'' \<rparr>]"
    by (simp add: sample_store_def)
  have m: "collation_eq ''Poetry'' ''poetry''" "\<not> collation_eq ''Fiction'' ''poetry''"
      "\<not> collation_eq ''Poetry'' ''Drama''" "\<not> collation_eq ''Fiction'' ''Drama''"
    by (simp_all add: collation_eq_def to_lower_def)
  have ex: "\<exists>g \<in> set (genre_coll sample_store). collation_eq (g_name g) ''poetry''"
    by (simp add: c m)
  have nex: "\<forall>g \<in> set (genre_coll sample_store). \<not> collation_eq (g_name g) ''Drama''"
    by (simp add: c m)
  note P = genre_create_post_case_insensitive [OF n(1), of sample_store "''g3''"]
  note D = genre_create_post_case_insensitive [OF n(2), of sample_store "''g3''"]
  note O = genre_create_post_case_insensitive [OF n(3), of sample_store "''g3''"]
  have 1: "out_store (genre_create_post ''g3'' ?p sample_store) = sample_store"
    using P v(1) ex by blast
  have "\<exists>g \<in> set (genre_coll sample_store). collation_eq (g_name g) ''poetry'' \<and>
      out_calls (genre_create_post ''g3'' ?p sample_store) = [Redirect (Url Genre (g_id g))]"
    using P v(1) ex by blast
  then have 2: "out_calls (genre_create_post ''g3'' ?p sample_store) = [Redirect (Url Genre ''g2'')]"
    by (simp add: c m)
  have "out_store (genre_create_post ''g3'' ?d sample_store) =
      sample_store\<lparr>genre_coll := genre_coll sample_store @ [\<lparr>g_id = ''g3'', g_name = ''Drama''\<rparr>]\<rparr>"
    using D v(2) nex by blast
  then have 3: "genre_coll (out_store (genre_create_post ''g3'' ?d sample_store))
      = genre_coll sample_store @ [\<lparr>g_id = ''g3'', g_name = ''Drama''\<rparr>]"
    by simp
  have 4: "out_store (genre_create_post ''g3'' ?o sample_store) = sample_store"
    using O v(3) by blast
  from 1 2 3 4 show ?thesis by simp
qed

section \<open>Optional dates\<close>

lemma date_chain_falsy:
  "v = None \<or> v = Some [] \<Longrightarrow> snd (date_chain L p m v) = [] \<and> cast_date (fst (date_chain L p m v)) = None"
  by (auto simp: date_chain_def cast_date_def)

lemma date_chain_invalid:
  "v = Some d \<Longrightarrow> d \<noteq> [] \<Longrightarrow> \<not> isISO8601 L d \<Longrightarrow> snd (date_chain L p m v) = [\<lparr>path = p, msg = m\<rparr>]"
  by (simp add: date_chain_def)

lemma text_chain_paths: "\<forall>e \<in> set (snd (text_chain p m n v)). path e = p"
  by (simp add: text_chain_def Let_def)

lemma name_chain_paths: "\<forall>e \<in> set (snd (name_chain p m1 m2 v)). path e = p"
  by (simp add: name_chain_def Let_def)

lemma date_chain_paths: "\<forall>e \<in> set (snd (date_chain L p m v)). path e = p"
  by (simp add: date_chain_def split: option.splits)

lemma filter_path_other:
  "\<forall>e \<in> set es. path e = p \<Longrightarrow> p \<noteq> q \<Longrightarrow> filter (\<lambda>e. path e = q) es = []"
  by (induction es) auto

lemma bookinstance_create_post_store:
  "out_store (bookinstance_create_post L i body s) =
     (if bookinstance_errors (bookinstance_chains L body) = [] then
        s\<lparr>bookinstance_coll := bookinstance_coll s @ [new_BookInstance i (bookinstance_chains L body)]\<rparr>
      else s)"
  by (simp add: bookinstance_create_post_def Let_def respond_def save_def)

lemma bookinstance_update_post_store:
  "out_store (bookinstance_update_post L i body s) =
     (if bookinstance_errors (bookinstance_chains L body) = [] then
        s\<lparr>bookinstance_coll := map (\<lambda>x. if i_id x = i then new_BookInstance i (bookinstance_chains L body) else x)
           (bookinstance_coll s)\<rparr>
      else s)"
  by (simp add: bookinstance_update_post_def Let_def respond_def findByIdAndUpdate_def new_BookInstance_def)

lemma author_create_post_store:
  "out_store (author_create_post L i body s) =
     (if author_errors (author_chains L body) = [] then
        s\<lparr>author_coll := author_coll s @ [new_Author i (author_chains L body)]\<rparr>
      else s)"
  by (simp add: author_create_post_def Let_def respond_def save_def)

lemma author_update_post_store:
  "out_store (author_update_post L i body s) =
     (if author_errors (author_chains L body) = [] then
        s\<lparr>author_coll := map (\<lambda>x. if a_id x = i then new_Author i (author_chains L body) else x)
           (author_coll s)\<rparr>
      else s)"
  by (simp add: author_update_post_def Let_def respond_def fail_def findByIdAndUpdate_def new_Author_def)

lemma due_back_falsy:
  assumes "body_due_back body = None \<or> body_due_back body = Some []"
  shows "filter (\<lambda>e. path e = ''due_back'') (bookinstance_errors (bookinstance_chains L body)) = []"
    and "i_due_back (new_BookInstance i (bookinstance_chains L body)) = None"
  using date_chain_falsy [OF assms, of L "''due_back''" "''Invalid date.''"]
    filter_path_other [OF text_chain_paths, of "''book''" "''due_back''"]
    filter_path_other [OF text_chain_paths, of "''imprint''" "''due_back''"]
  by (simp_all add: bookinstance_errors_def bookinstance_chains_def new_BookInstance_def)

lemma due_back_invalid:
  assumes "body_due_back body = Some d" "d \<noteq> []" "\<not> isISO8601 L d"
  shows "\<lparr>path = ''due_back'', msg = ''Invalid date.''\<rparr> \<in> set (bookinstance_errors (bookinstance_chains L body))"
    and "out_store (bookinstance_create_post L i body s) = s"
    and "out_store (bookinstance_update_post L i body s) = s"
  using date_chain_invalid [OF assms, of "''due_back''" "''Invalid date.''"]
  by (simp_all add: bookinstance_create_post_store bookinstance_update_post_store
      bookinstance_errors_def bookinstance_chains_def)

lemma date_of_birth_falsy:
  assumes "body_date_of_birth body = None \<or> body_date_of_birth body = Some []"
  shows "filter (\<lambda>e. path e = ''date_of_birth'') (author_errors (author_chains L body)) = []"
    and "a_date_of_birth (new_Author i (author_chains L body)) = None"
  using date_chain_falsy [OF assms, of L "''date_of_birth''" "''Invalid date of birth.''"]
    filter_path_other [OF name_chain_paths, of "''first_name''" "''date_of_birth''"]
    filter_path_other [OF name_chain_paths, of "''family_name''" "''date_of_birth''"]
    filter_path_other [OF date_chain_paths, of "''date_of_death''" "''date_of_birth''"]
  by (simp_all add: author_errors_def author_chains_def new_Author_def)

lemma date_of_birth_invalid:
  assumes "body_date_of_birth body = Some d" "d \<noteq> []" "\<not> isISO8601 L d"
  shows "\<lparr>path = ''date_of_birth'', msg = ''Invalid date of birth.''\<rparr> \<in> set (author_errors (author_chains L body))"
    and "out_store (author_create_post L i body s) = s"
    and "out_store (author_update_post L i body s) = s"
  using date_chain_invalid [OF assms, of "''date_of_birth''" "''Invalid date of birth.''"]
  by (simp_all add: author_create_post_store author_update_post_store
      author_errors_def author_chains_def)

lemma date_of_death_falsy:
  assumes "body_date_of_death body = None \<or> body_date_of_death body = Some []"
  shows "filter (\<lambda>e. path e = ''date_of_death'') (author_errors (author_chains L body)) = []"
    and "a_date_of_death (new_Author i (author_chains L body)) = None"
  using date_chain_falsy [OF assms, of L "''date_of_death''" "''Invalid date of death.''"]
    filter_path_other [OF name_chain_paths, of "''first_name''" "''date_of_death''"]
    filter_path_other [OF name_chain_paths, of "''family_name''" "''date_of_death''"]
    filter_path_other [OF date_chain_paths, of "''date_of_birth''" "''date_of_death''"]
  by (simp_all add: author_errors_def author_chains_def new_Author_def)

lemma date_of_death_invalid:
  assumes "body_date_of_death body = Some d" "d \<noteq> []" "\<not> isISO8601 L d"
  shows "\<lparr>path = ''date_of_death'', msg = ''Invalid date of death.''\<rparr> \<in> set (author_errors (author_chains L body))"
    and "out_store (author_create_post L i body s) = s"
    and "out_store (author_update_post L i body s) = s"
  using date_chain_invalid [OF assms, of "''date_of_death''" "''Invalid date of death.''"]
  by (simp_all add: author_create_post_store author_update_post_store
      author_errors_def author_chains_def)

text \<open>
  C5, as the code has it. For each optional date field (\<open>due_back\<close> of a BookInstance,
  \<open>date_of_birth\<close> and \<open>date_of_death\<close> of an Author) and any ISO-8601 test and date
  parser of the library: an absent or empty value gives no validation error for the
  field and the document that is built (and saved when the submission has no error)
  has no date there; a non-empty value that is not ISO 8601 gives a validation error
  for the field, and neither create nor update changes the store. The message of the
  error is the field's own: "Invalid date." for \<open>due_back\<close>, "Invalid date of birth."
  for \<open>date_of_birth\<close>, "Invalid date of death." for \<open>date_of_death\<close>.
\<close>

theorem optional_date_fields:
  "(body_due_back cb = None \<or> body_due_back cb = Some [] \<longrightarrow>
      filter (\<lambda>e. path e = ''due_back'') (bookinstance_errors (bookinstance_chains L cb)) = [] \<and>
      i_due_back (new_BookInstance i (bookinstance_chains L cb)) = None \<and>
      (bookinstance_errors (bookinstance_chains L cb) = [] \<longrightarrow>
         bookinstance_coll (out_store (bookinstance_create_post L i cb s)) =
           bookinstance_coll s @ [new_BookInstance i (bookinstance_chains L cb)])) \<and>
   (body_due_back cb = Some d \<and> d \<noteq> [] \<and> \<not> isISO8601 L d \<longrightarrow>
      \<lparr>path = ''due_back'', msg = ''Invalid date.''\<rparr>
         \<in> set (bookinstance_errors (bookinstance_chains L cb)) \<and>
      out_store (bookinstance_create_post L i cb s) = s \<and>
      out_store (bookinstance_update_post L i cb s) = s) \<and>
   (body_date_of_birth ab = None \<or> body_date_of_birth ab = Some [] \<longrightarrow>
      filter (\<lambda>e. path e = ''date_of_birth'') (author_errors (author_chains L ab)) = [] \<and>
      a_date_of_birth (new_Author i (author_chains L ab)) = None) \<and>
   (body_date_of_birth ab = Some d \<and> d \<noteq> [] \<and> \<not> isISO8601 L d \<longrightarrow>
      \<lparr>path = ''date_of_birth'', msg = ''Invalid date of birth.''\<rparr>
         \<in> set (author_errors (author_chains L ab)) \<and>
      out_store (author_create_post L i ab s) = s \<and>
      out_store (author_update_post L i ab s) = s) \<and>
   (body_date_of_death ab = None \<or> body_date_of_death ab = Some [] \<longrightarrow>
      filter (\<lambda>e. path e = ''date_of_death'') (author_errors (author_chains L ab)) = [] \<and>
      a_date_of_death (new_Author i (author_chains L ab)) = None) \<and>
   (body_date_of_death ab = Some d \<and> d \<noteq> [] \<and> \<not> isISO8601 L d \<longrightarrow>
      \<lparr>path = ''date_of_death'', msg = ''Invalid date of death.''\<rparr>
         \<in> set (author_errors (author_chains L ab)) \<and>
      out_store (author_create_post L i ab s) = s \<and>
      out_store (author_update_post L i ab s) = s) \<and>
   (author_errors (author_chains L ab) = [] \<longrightarrow>
      author_coll (out_store (author_create_post L i ab s)) =
        author_coll s @ [new_Author i (author_chains L ab)])"
proof (intro conjI impI)
  assume h: "body_due_back cb = None \<or> body_due_back cb = Some []"
  show "filter (\<lambda>e. path e = ''due_back'') (bookinstance_errors (bookinstance_chains L cb)) = []"
    by (rule due_back_falsy(1) [OF h])
  show "i_due_back (new_BookInstance i (bookinstance_chains L cb)) = None"
    by (rule due_back_falsy(2) [OF h])
next
  assume "bookinstance_errors (bookinstance_chains L cb) = []"
  then show "bookinstance_coll (out_store (bookinstance_create_post L i cb s)) =
      bookinstance_coll s @ [new_BookInstance i (bookinstance_chains L cb)]"
    by (simp add: bookinstance_create_post_store)
next
  assume h: "body_due_back cb = Some d \<and> d \<noteq> [] \<and> \<not> isISO8601 L d"
  then have h': "body_due_back cb = Some d" "d \<noteq> []" "\<not> isISO8601 L d" by simp_all
  show "\<lparr>path = ''due_back'', msg = ''Invalid date.''\<rparr>
      \<in> set (bookinstance_errors (bookinstance_chains L cb))"
    by (rule due_back_invalid(1) [OF h'])
  show "out_store (bookinstance_create_post L i cb s) = s" by (rule due_back_invalid(2) [OF h'])
  show "out_store (bookinstance_update_post L i cb s) = s" by (rule due_back_invalid(3) [OF h'])
next
  assume h: "body_date_of_birth ab = None \<or> body_date_of_birth ab = Some []"
  show "filter (\<lambda>e. path e = ''date_of_birth'') (author_errors (author_chains L ab)) = []"
    by (rule date_of_birth_falsy(1) [OF h])
  show "a_date_of_birth (new_Author i (author_chains L ab)) = None"
    by (rule date_of_birth_falsy(2) [OF h])
next
  assume h: "body_date_of_birth ab = Some d \<and> d \<noteq> [] \<and> \<not> isISO8601 L d"
  then have h': "body_date_of_birth ab = Some d" "d \<noteq> []" "\<not> isISO8601 L d" by simp_all
  show "\<lparr>path = ''date_of_birth'', msg = ''Invalid date of birth.''\<rparr>
      \<in> set (author_errors (author_chains L ab))"
    by (rule date_of_birth_invalid(1) [OF h'])
  show "out_store (author_create_post L i ab s) = s" by (rule date_of_birth_invalid(2) [OF h'])
  show "out_store (author_update_post L i ab s) = s" by (rule date_of_birth_invalid(3) [OF h'])
next
  assume h: "body_date_of_death ab = None \<or> body_date_of_death ab = Some []"
  show "filter (\<lambda>e. path e = ''date_of_death'') (author_errors (author_chains L ab)) = []"
    by (rule date_of_death_falsy(1) [OF h])
  show "a_date_of_death (new_Author i (author_chains L ab)) = None"
    by (rule date_of_death_falsy(2) [OF h])
next
  assume h: "body_date_of_death ab = Some d \<and> d \<noteq> [] \<and> \<not> isISO8601 L d"
  then have h': "body_date_of_death ab = Some d" "d \<noteq> []" "\<not> isISO8601 L d" by simp_all
  show "\<lparr>path = ''date_of_death'', msg = ''Invalid date of death.''\<rparr>
      \<in> set (author_errors (author_chains L ab))"
    by (rule date_of_death_invalid(1) [OF h'])
  show "out_store (author_create_post L i ab s) = s" by (rule date_of_death_invalid(2) [OF h'])
  show "out_store (author_update_post L i ab s) = s" by (rule date_of_death_invalid(3) [OF h'])
next
  assume "author_errors (author_chains L ab) = []"
  then show "author_coll (out_store (author_create_post L i ab s)) =
      author_coll s @ [new_Author i (author_chains L ab)]"
    by (simp add: author_create_post_store)
qed

theorem optional_date_fields_witness:
  "i_due_back (new_BookInstance ''i3'' (bookinstance_chains ymd_lib
      \<lparr> body_book = Some ''b1'', body_imprint = Some ''Ace 1990'', body_status = Some ''Available'',
        body_due_back = Some [] \<rparr>)) = None \<and>
   bookinstance_coll (out_store (bookinstance_create_post ymd_lib ''i3''
      \<lparr> body_book = Some ''b1'', body_imprint = Some ''Ace 1990'', body_status = Some ''Available'',
        body_due_back = Some [] \<rparr> sample_store)) =
     bookinstance_coll sample_store @
       [\<lparr> i_id = ''i3'', i_book = ''b1'', i_imprint = ''Ace 1990'', i_status = ''Available'',
          i_due_back = None \<rparr>] \<and>
   \<lparr>path = ''due_back'', msg = ''Invalid date.''\<rparr> \<in> set (bookinstance_errors (bookinstance_chains ymd_lib
      \<lparr> body_book = Some ''b1'', body_imprint = Some ''Ace 1990'', body_status = Some ''Loaned'',
        body_due_back = Some ''next week'' \<rparr>)) \<and>
   out_store (bookinstance_create_post ymd_lib ''i3''
      \<lparr> body_book = Some ''b1'', body_imprint = Some ''Ace 1990'', body_status = Some ''Loaned'',
        body_due_back = Some ''next week'' \<rparr> sample_store) = sample_store \<and>
   a_date_of_birth (new_Author ''a3'' (author_chains ymd_lib
      \<lparr> body_first_name = Some ''Frank'', body_family_name = Some ''Herbert'',
        body_date_of_birth = None, body_date_of_death = Some ''1986'' \<rparr>)) = None \<and>
   \<lparr>path = ''date_of_death'', msg = ''Invalid date of death.''\<rparr> \<in> set (author_errors (author_chains ymd_lib
      \<lparr> body_first_name = Some ''Frank'', body_family_name = Some ''Herbert'',
        body_date_of_birth = None, body_date_of_death = Some ''1986'' \<rparr>)) \<and>
   out_store (author_update_post ymd_lib ''a1''
      \<lparr> body_first_name = Some ''Frank'', body_family_name = Some ''Herbert'',
        body_date_of_birth = None, body_date_of_death = Some ''1986'' \<rparr> sample_store) = sample_store"
proof -
  let ?c1 = "\<lparr> body_book = Some ''b1'', body_imprint = Some ''Ace 1990'',
      body_status = Some ''Available'', body_due_back = Some [] \<rparr>"
  let ?c2 = "\<lparr> body_book = Some ''b1'', body_imprint = Some ''Ace 1990'',
      body_status = Some ''Loaned'', body_due_back = Some ''next week'' \<rparr>"
  let ?a = "\<lparr> body_first_name = Some ''Frank'', body_family_name = Some ''Herbert'',
      body_date_of_birth = None, body_date_of_death = Some ''1986'' \<rparr>"
  have iso: "\<not> isISO8601 ymd_lib ''next week''" "\<not> isISO8601 ymd_lib ''1986''"
    by (simp_all add: ymd_lib_def is_ymd_def)
  have e1: "bookinstance_errors (bookinstance_chains ymd_lib ?c1) = []"
    by (simp add: bookinstance_errors_def bookinstance_chains_def text_chain_def date_chain_def
        trim_def is_space_def isLength_def to_string_def Let_def)
  have n1: "new_BookInstance ''i3'' (bookinstance_chains ymd_lib ?c1) =
      \<lparr> i_id = ''i3'', i_book = ''b1'', i_imprint = ''Ace 1990'', i_status = ''Available'',
        i_due_back = None \<rparr>"
    by (simp add: new_BookInstance_def bookinstance_chains_def text_chain_def date_chain_def
        escape_chain_def cast_date_def trim_def is_space_def escape_def to_string_def Let_def)
  note C1 = optional_date_fields [where cb = ?c1 and L = ymd_lib and i = "''i3''" and s = sample_store]
  note C2 = optional_date_fields [where cb = ?c2 and L = ymd_lib and i = "''i3''" and s = sample_store
      and d = "''next week''"]
  note A = optional_date_fields [where ab = ?a and L = ymd_lib and i = "''a3''" and d = "''1986''"]
  note A' = optional_date_fields [where ab = ?a and L = ymd_lib and i = "''a1''" and s = sample_store
      and d = "''1986''"]
  have 1: "i_due_back (new_BookInstance ''i3'' (bookinstance_chains ymd_lib ?c1)) = None"
    using C1 by simp
  have "bookinstance_coll (out_store (bookinstance_create_post ymd_lib ''i3'' ?c1 sample_store)) =
      bookinstance_coll sample_store @ [new_BookInstance ''i3'' (bookinstance_chains ymd_lib ?c1)]"
    using C1 e1 by simp
  then have 2: "bookinstance_coll (out_store (bookinstance_create_post ymd_lib ''i3'' ?c1 sample_store)) =
      bookinstance_coll sample_store @
       [\<lparr> i_id = ''i3'', i_book = ''b1'', i_imprint = ''Ace 1990'', i_status = ''Available'',
          i_due_back = None \<rparr>]"
    by (simp only: n1)
  have 3: "\<lparr>path = ''due_back'', msg = ''Invalid date.''\<rparr>
      \<in> set (bookinstance_errors (bookinstance_chains ymd_lib ?c2))"
    using C2 iso(1) by simp
  have 4: "out_store (bookinstance_create_post ymd_lib ''i3'' ?c2 sample_store) = sample_store"
    using C2 iso(1) by simp
  have 5: "a_date_of_birth (new_Author ''a3'' (author_chains ymd_lib ?a)) = None"
    using A by simp
  have 6: "\<lparr>path = ''date_of_death'', msg = ''Invalid date of death.''\<rparr>
      \<in> set (author_errors (author_chains ymd_lib ?a))"
    using A iso(2) by simp
  have 7: "out_store (author_update_post ymd_lib ''a1'' ?a sample_store) = sample_store"
    using A' iso(2) by simp
  from 1 2 3 4 5 6 7 show ?thesis by blast
qed

text \<open>
  The message is not "Invalid date." for the dates of an Author: a create submission
  with the date of birth "tomorrow" is answered with the form and the one error
  "Invalid date of birth.".
\<close>

theorem author_invalid_date_message_counterexample:
  "out_calls (author_create_post ymd_lib ''a3''
      \<lparr> body_first_name = Some ''Frank'', body_family_name = Some ''Herbert'',
        body_date_of_birth = Some ''tomorrow'', body_date_of_death = None \<rparr> sample_store)
    = [Render ''author_form'' ''Create author''
        (AuthorForm
          (Some \<lparr> a_id = ''a3'', a_first_name = ''Frank'', a_family_name = ''Herbert'',
             a_date_of_birth = None, a_date_of_death = None \<rparr>)
          (Some [\<lparr>path = ''date_of_birth'', msg = ''Invalid date of birth.''\<rparr>]))] \<and>
   \<lparr>path = ''date_of_birth'', msg = ''Invalid date.''\<rparr> \<notin> set (author_errors (author_chains ymd_lib
      \<lparr> body_first_name = Some ''Frank'', body_family_name = Some ''Herbert'',
        body_date_of_birth = Some ''tomorrow'', body_date_of_death = None \<rparr>))"
  by (simp add: author_create_post_def author_chains_def author_errors_def name_chain_def
      date_chain_def new_Author_def cast_date_def ymd_lib_def is_ymd_def
      trim_def is_space_def isLength_def isAlphanumeric_def is_alnum_def
      escape_def to_string_def respond_def Let_def)

section \<open>The genre values of a book\<close>

lemma genre_to_array_create_genre:
  "body_genre (genre_to_array_create body) =
     (case body_genre body of Undefined \<Rightarrow> Array [] | Scalar x \<Rightarrow> Array [x] | Array xs \<Rightarrow> Array xs)"
  by (simp add: genre_to_array_create_def split: genre_field.splits)

lemma genre_to_array_update_genre:
  "body_genre (genre_to_array_update body) =
     (case body_genre body of Undefined \<Rightarrow> Array [] | Scalar x \<Rightarrow> Array [x] | Array xs \<Rightarrow> Array xs)"
  by (simp add: genre_to_array_update_def split: genre_field.splits)

lemma new_Book_genre_create:
  "b_genre (new_Book i (book_create_chains (genre_to_array_create body))) =
     map escape (cast_genre (body_genre body))"
  by (simp add: new_Book_def book_create_chains_def genre_to_array_create_def escape_each_def
      cast_genre_def split: genre_field.splits)

lemma new_Book_genre_update:
  "b_genre (new_Book i (book_update_chains (genre_to_array_update body))) =
     map escape (cast_genre (body_genre body))"
  by (simp add: new_Book_def book_update_chains_def genre_to_array_update_def escape_each_def
      cast_genre_def split: genre_field.splits)

lemma findById_updated:
  "ident d = i \<Longrightarrow>
   findById ident i (map (\<lambda>x. if ident x = i then d else x) coll) =
     (if findById ident i coll = None then None else Some d)"
  by (induction coll) (auto simp: findById_def)

lemma book_update_post_stores_genre:
  assumes "book_errors (book_update_chains (genre_to_array_update body)) = []"
    and "findById b_id i (book_coll s) \<noteq> None"
  shows "\<exists>b. findById b_id i (book_coll (out_store (book_update_post i body s))) = Some b \<and>
    b_genre b = map escape (cast_genre (body_genre body))"
proof -
  let ?book = "new_Book i (book_update_chains (genre_to_array_update body))"
  have i: "b_id ?book = i" by (simp add: new_Book_def)
  have "book_coll (out_store (book_update_post i body s)) =
      map (\<lambda>x. if b_id x = i then ?book else x) (book_coll s)"
    using assms
    by (auto simp: book_update_post_def Let_def findByIdAndUpdate_def findById_def respond_def
        split: option.splits)
  then have "findById b_id i (book_coll (out_store (book_update_post i body s))) = Some ?book"
    using assms(2) findById_updated [where ident = b_id and d = ?book and i = i and coll = "book_coll s"] i
    by simp
  then show ?thesis using new_Book_genre_update by blast
qed

text \<open>
  C6. The genre field of a Book submission should be made an array (absent: empty, one
  value: one element, an array: unchanged) and the references stored, in order. The
  first middleware does the former (\<open>genre_to_array_create_genre\<close>,
  \<open>genre_to_array_update_genre\<close>) and an update of a stored book stores the references
  (\<open>book_update_post_stores_genre\<close>). A create stores nothing: with no, one and three
  genre values and valid fields, the store is left as it was and the handler ends
  with the TypeError of \<^verbatim>\<open>book.dave()\<close>.
\<close>

theorem book_create_post_genres_not_stored:
  "book_create_post ''b3''
     \<lparr> body_title = Some ''Emma'', body_author = Some ''a2'', body_summary = Some ''A match'',
       body_isbn = Some ''9780141439587'', body_genre = Undefined \<rparr> sample_store
   = \<lparr> out_store = sample_store, out_calls = [],
       out_error = Some (TypeError ''book.dave is not a function'') \<rparr> \<and>
   book_create_post ''b3''
     \<lparr> body_title = Some ''Emma'', body_author = Some ''a2'', body_summary = Some ''A match'',
       body_isbn = Some ''9780141439587'', body_genre = Scalar ''g1'' \<rparr> sample_store
   = \<lparr> out_store = sample_store, out_calls = [],
       out_error = Some (TypeError ''book.dave is not a function'') \<rparr> \<and>
   book_create_post ''b3''
     \<lparr> body_title = Some ''Emma'', body_author = Some ''a2'', body_summary = Some ''A match'',
       body_isbn = Some ''9780141439587'', body_genre = Array [''g2'', ''g1'', ''g3''] \<rparr> sample_store
   = \<lparr> out_store = sample_store, out_calls = [],
       out_error = Some (TypeError ''book.dave is not a function'') \<rparr>"
  by (simp add: book_create_post_def book_create_chains_def genre_to_array_create_def
      book_errors_def text_chain_def trim_def is_space_def isLength_def to_string_def
      fail_def Let_def)

section \<open>The forms for an entity that is not in the store\<close>

lemma author_update_get_absent:
  "findById a_id i (author_coll s) = None \<Longrightarrow>
   author_update_get i s = respond s [Redirect (Path ''/catalog/authors'')]"
  by (simp add: author_update_get_def)

lemma book_update_get_absent:
  "findById b_id i (book_coll s) = None \<Longrightarrow>
   book_update_get i s = fail s [] (NotFound ''Book not found'')"
  by (simp add: book_update_get_def)

lemma genre_update_get_absent:
  "findById g_id i (genre_coll s) = None \<Longrightarrow>
   genre_update_get i s = respond s [Render ''genre_form'' ''Update genre'' (GenreForm None None)]"
  by (simp add: genre_update_get_def)

lemma bookinstance_update_get_absent:
  "findById i_id i (bookinstance_coll s) = None \<Longrightarrow>
   bookinstance_update_get i s =
     fail s [] (TypeError ''Cannot read properties of null (reading book)'')"
  by (simp add: bookinstance_update_get_def)

text \<open>
  C7. For an id that is not in the store the update form should end in NotFound or in
  a redirect to the list, and never render the form or raise an unhandled failure.
  The author form redirects and the book form ends in NotFound
  (\<open>author_update_get_absent\<close>, \<open>book_update_get_absent\<close>). The genre form is rendered
  with no genre, and the book instance form ends with the TypeError of
  \<^verbatim>\<open>bookInstance.book\<close> on \<^verbatim>\<open>null\<close>.
\<close>

theorem update_get_absent_genre_bookinstance:
  "genre_update_get ''g9'' sample_store
     = \<lparr> out_store = sample_store,
         out_calls = [Render ''genre_form'' ''Update genre'' (GenreForm None None)],
         out_error = None \<rparr> \<and>
   bookinstance_update_get ''i9'' sample_store
     = \<lparr> out_store = sample_store, out_calls = [],
         out_error = Some (TypeError ''Cannot read properties of null (reading book)'') \<rparr>"
  by (simp add: genre_update_get_def bookinstance_update_get_def findById_def sample_store_def
      respond_def fail_def Let_def)

lemma genre_delete_get_absent:
  "findById g_id i (genre_coll s) = None \<Longrightarrow>
   genre_delete_get i s = respond s [Redirect (Path ''/catalog/genres'')]"
  by (simp add: genre_delete_get_def)

lemma bookinstance_delete_get_absent:
  "findById i_id i (bookinstance_coll s) = None \<Longrightarrow>
   bookinstance_delete_get i s = respond s [Redirect (Path ''/catalog/bookinstances'')]"
  by (simp add: bookinstance_delete_get_def)

lemma book_delete_get_absent:
  "findById b_id i (book_coll s) = None \<Longrightarrow>
   book_delete_get i s =
     respond s [Redirect (Path ''/catalog/books''),
       Render ''book_delete'' ''Delete Book'' (BookDelete None (find_by_book i (bookinstance_coll s)))]"
  by (simp add: book_delete_get_def)

lemma author_delete_get_absent:
  "findById a_id i (author_coll s) = None \<Longrightarrow>
   author_delete_get i s =
     respond s [Redirect (Path ''/catalog/authors''),
       Render ''author_delete'' ''Delete author'' (AuthorDelete None (find_by_author i (book_coll s)))]"
  by (simp add: author_delete_get_def)

text \<open>
  C8. For an id that is not in the store the delete form should answer with the
  redirect to the list and nothing else. The genre and the book instance forms do
  (\<open>genre_delete_get_absent\<close>, \<open>bookinstance_delete_get_absent\<close>). The book and the
  author forms call the redirect and then, for want of a \<^verbatim>\<open>return\<close>, render the
  delete-confirmation view with no entity: two calls on the response.
\<close>

theorem delete_get_absent_book_author:
  "book_delete_get ''b7'' sample_store
     = \<lparr> out_store = sample_store,
         out_calls = [Redirect (Path ''/catalog/books''),
           Render ''book_delete'' ''Delete Book'' (BookDelete None [])],
         out_error = None \<rparr> \<and>
   author_delete_get ''a9'' sample_store
     = \<lparr> out_store = sample_store,
         out_calls = [Redirect (Path ''/catalog/authors''),
           Render ''author_delete'' ''Delete author'' (AuthorDelete None [])],
         out_error = None \<rparr>"
  by (simp add: book_delete_get_def author_delete_get_def findById_def find_by_book_def
      find_by_author_def sample_store_def respond_def Let_def)

section \<open>Deleting a book instance\<close>

lemma bookinstance_delete_post_removes:
  assumes "findById i_id i (bookinstance_coll s) = Some c"
  shows "out_store (bookinstance_delete_post i i s) =
      s\<lparr>bookinstance_coll := filter (\<lambda>x. i_id x \<noteq> i) (bookinstance_coll s)\<rparr>"
  using assms
  by (simp add: bookinstance_delete_post_def Let_def findByIdAndDelete_def respond_def fail_def
      split: option.splits)

lemma bookinstance_delete_post_book_present:
  assumes "findById i_id i (bookinstance_coll s) = Some c"
    and "findById b_id (i_book c) (book_coll s) = Some b"
  shows "bookinstance_delete_post i i s =
      respond (s\<lparr>bookinstance_coll := findByIdAndDelete i_id i (bookinstance_coll s)\<rparr>)
        [Redirect (Url Book (b_id b))]"
  using assms by (simp add: bookinstance_delete_post_def Let_def)

lemma bookinstance_delete_post_book_absent:
  assumes "findById i_id i (bookinstance_coll s) = Some c"
    and "findById b_id (i_book c) (book_coll s) = None"
  shows "bookinstance_delete_post i i s =
      fail (s\<lparr>bookinstance_coll := findByIdAndDelete i_id i (bookinstance_coll s)\<rparr>) []
        (TypeError ''Cannot read properties of null (reading url)'')"
  using assms by (simp add: bookinstance_delete_post_def Let_def)

text \<open>
  C9. The delete of an existing BookInstance, with the same id in the body and in the
  path, should remove it and redirect whatever the state of the other entities. It
  removes it in every case (\<open>bookinstance_delete_post_removes\<close>) and redirects to the
  book when the book exists (\<open>bookinstance_delete_post_book_present\<close>). For the copy
  \<open>i2\<close> of the sample store, whose book is not in the store, the copy is removed, no
  call is made on the response and the handler ends with the TypeError of
  \<^verbatim>\<open>book.url\<close> on \<^verbatim>\<open>null\<close>.
\<close>

theorem bookinstance_delete_post_orphan_throws:
  "bookinstance_delete_post ''i2'' ''i2'' sample_store
     = \<lparr> out_store = sample_store\<lparr>bookinstance_coll :=
           [\<lparr> i_id = ''i1'', i_book = ''b1'', i_imprint = ''Ace 1990'', i_status = ''Available'',
              i_due_back = None \<rparr>]\<rparr>,
         out_calls = [],
         out_error = Some (TypeError ''Cannot read properties of null (reading url)'') \<rparr>"
  by (simp add: bookinstance_delete_post_def findById_def findByIdAndDelete_def sample_store_def
      fail_def Let_def)

section \<open>The status of a book instance\<close>

lemma bookinstance_errors_status:
  "bookinstance_errors (bookinstance_chains L (body\<lparr>body_status := v\<rparr>)) =
     bookinstance_errors (bookinstance_chains L body)"
  by (simp add: bookinstance_errors_def bookinstance_chains_def)

lemma bookinstance_errors_no_status:
  "filter (\<lambda>e. path e = ''status'') (bookinstance_errors (bookinstance_chains L body)) = []"
  using filter_path_other [OF text_chain_paths, of "''book''" "''status''"]
    filter_path_other [OF text_chain_paths, of "''imprint''" "''status''"]
    filter_path_other [OF date_chain_paths, of "''due_back''" "''status''"]
  by (simp add: bookinstance_errors_def bookinstance_chains_def)

lemma new_BookInstance_status:
  "i_status (new_BookInstance i (bookinstance_chains L body)) = escape (to_string (body_status body))"
  by (simp add: new_BookInstance_def bookinstance_chains_def escape_chain_def)

lemma new_BookInstance_id: "i_id (new_BookInstance i f) = i"
  by (simp add: new_BookInstance_def)

text \<open>
  C10. BookInstance create and update, for a submission whose status is any string
  \<open>st\<close> (the empty string too): no validation error is for the status; the errors of
  the submission are those of the same submission with any other status value; when
  the submission has no error, create appends a document whose status is \<open>st\<close> after
  escaping, and update of a stored instance leaves under its id a document whose
  status is \<open>st\<close> after escaping.
\<close>

theorem bookinstance_status_unvalidated:
  "filter (\<lambda>e. path e = ''status'')
     (bookinstance_errors (bookinstance_chains L (body\<lparr>body_status := Some st\<rparr>))) = [] \<and>
   bookinstance_errors (bookinstance_chains L (body\<lparr>body_status := Some st\<rparr>)) =
     bookinstance_errors (bookinstance_chains L (body\<lparr>body_status := v\<rparr>)) \<and>
   (bookinstance_errors (bookinstance_chains L (body\<lparr>body_status := Some st\<rparr>)) = [] \<longrightarrow>
      (\<exists>c. bookinstance_coll
              (out_store (bookinstance_create_post L i (body\<lparr>body_status := Some st\<rparr>) s)) =
            bookinstance_coll s @ [c] \<and>
          i_id c = i \<and> i_status c = escape st)) \<and>
   (bookinstance_errors (bookinstance_chains L (body\<lparr>body_status := Some st\<rparr>)) = [] \<and>
    findById i_id i (bookinstance_coll s) \<noteq> None \<longrightarrow>
      (\<exists>c. findById i_id i (bookinstance_coll
              (out_store (bookinstance_update_post L i (body\<lparr>body_status := Some st\<rparr>) s))) =
            Some c \<and>
          i_status c = escape st))"
proof (intro conjI impI)
  let ?b = "body\<lparr>body_status := Some st\<rparr>"
  let ?c = "new_BookInstance i (bookinstance_chains L ?b)"
  have st: "i_status ?c = escape st"
    by (simp add: new_BookInstance_status to_string_def)
  show "filter (\<lambda>e. path e = ''status'') (bookinstance_errors (bookinstance_chains L ?b)) = []"
    by (rule bookinstance_errors_no_status)
  show "bookinstance_errors (bookinstance_chains L ?b) =
      bookinstance_errors (bookinstance_chains L (body\<lparr>body_status := v\<rparr>))"
    by (simp add: bookinstance_errors_status)
  {
    assume "bookinstance_errors (bookinstance_chains L ?b) = []"
    then have "bookinstance_coll (out_store (bookinstance_create_post L i ?b s)) =
        bookinstance_coll s @ [?c]"
      by (simp add: bookinstance_create_post_store)
    then show "\<exists>c. bookinstance_coll (out_store (bookinstance_create_post L i ?b s)) =
          bookinstance_coll s @ [c] \<and> i_id c = i \<and> i_status c = escape st"
      using st new_BookInstance_id by blast
  }
  {
    assume h: "bookinstance_errors (bookinstance_chains L ?b) = [] \<and>
      findById i_id i (bookinstance_coll s) \<noteq> None"
    then have "bookinstance_coll (out_store (bookinstance_update_post L i ?b s)) =
        map (\<lambda>x. if i_id x = i then ?c else x) (bookinstance_coll s)"
      by (simp add: bookinstance_update_post_store)
    then have "findById i_id i (bookinstance_coll (out_store (bookinstance_update_post L i ?b s))) =
        Some ?c"
      using h findById_updated [where ident = i_id and d = ?c and i = i and coll = "bookinstance_coll s"]
        new_BookInstance_id [of i "bookinstance_chains L ?b"]
      by simp
    then show "\<exists>c. findById i_id i (bookinstance_coll
          (out_store (bookinstance_update_post L i ?b s))) = Some c \<and> i_status c = escape st"
      using st by blast
  }
qed

theorem bookinstance_status_unvalidated_witness:
  "bookinstance_coll (out_store (bookinstance_create_post ymd_lib ''i3''
      \<lparr> body_book = Some ''b2'', body_imprint = Some ''Gollancz'', body_status = Some [],
        body_due_back = None \<rparr> sample_store)) =
     bookinstance_coll sample_store @
       [\<lparr> i_id = ''i3'', i_book = ''b2'', i_imprint = ''Gollancz'', i_status = [],
          i_due_back = None \<rparr>] \<and>
   (\<exists>c. findById i_id ''i1'' (bookinstance_coll (out_store (bookinstance_update_post ymd_lib ''i1''
      \<lparr> body_book = Some ''b2'', body_imprint = Some ''Gollancz'', body_status = Some ''<lost>'',
        body_due_back = None \<rparr> sample_store))) = Some c \<and> i_status c = ''&lt;lost&gt;'')"
proof -
  let ?b = "\<lparr> body_book = Some ''b2'', body_imprint = Some ''Gollancz'', body_status = None,
      body_due_back = None \<rparr>"
  have e: "bookinstance_errors (bookinstance_chains ymd_lib (?b\<lparr>body_status := Some []\<rparr>)) = []"
      "bookinstance_errors (bookinstance_chains ymd_lib (?b\<lparr>body_status := Some ''<lost>''\<rparr>)) = []"
    by (simp_all add: bookinstance_errors_def bookinstance_chains_def text_chain_def date_chain_def
        trim_def is_space_def isLength_def to_string_def Let_def)
  have f: "findById i_id ''i1'' (bookinstance_coll sample_store) \<noteq> None"
    by (simp add: findById_def sample_store_def)
  have x: "escape ''<lost>'' = ''&lt;lost&gt;''" "escape [] = []"
    by (simp_all add: escape_def)
  note E = bookinstance_status_unvalidated
      [where L = ymd_lib and body = ?b and st = "[]" and i = "''i3''" and s = sample_store]
  note U = bookinstance_status_unvalidated
      [where L = ymd_lib and body = ?b and st = "''<lost>''" and i = "''i1''" and s = sample_store]
  from E e(1) obtain c where c: "bookinstance_coll (out_store (bookinstance_create_post ymd_lib ''i3''
      (?b\<lparr>body_status := Some []\<rparr>) sample_store)) = bookinstance_coll sample_store @ [c]"
      "i_id c = ''i3''" "i_status c = escape []"
    by blast
  have s: "out_store (bookinstance_create_post ymd_lib ''i3'' (?b\<lparr>body_status := Some []\<rparr>) sample_store)
      = sample_store\<lparr>bookinstance_coll := bookinstance_coll sample_store @
       [\<lparr> i_id = ''i3'', i_book = ''b2'', i_imprint = ''Gollancz'', i_status = [],
          i_due_back = None \<rparr>]\<rparr>"
    by (simp add: bookinstance_create_post_def bookinstance_errors_def bookinstance_chains_def
        text_chain_def date_chain_def escape_chain_def new_BookInstance_def cast_date_def
        trim_def is_space_def isLength_def escape_def to_string_def respond_def save_def Let_def)
  have 1: "bookinstance_coll (out_store (bookinstance_create_post ymd_lib ''i3''
      (?b\<lparr>body_status := Some []\<rparr>) sample_store)) =
     bookinstance_coll sample_store @
       [\<lparr> i_id = ''i3'', i_book = ''b2'', i_imprint = ''Gollancz'', i_status = [],
          i_due_back = None \<rparr>]"
    using c s by simp
  have 2: "\<exists>c. findById i_id ''i1'' (bookinstance_coll (out_store (bookinstance_update_post ymd_lib ''i1''
      (?b\<lparr>body_status := Some ''<lost>''\<rparr>) sample_store))) = Some c \<and> i_status c = ''&lt;lost&gt;''"
    using U e(2) f unfolding x by blast
  from 1 2 show ?thesis by simp
qed

end
